theory Spec2Isabelle
  imports Complex_Main
begin

chapter \<open>The data contract execution engine\<close>

text \<open>
  A shallow embedding of the validation core of the engine: \<^verbatim>\<open>SLAEnforcer\<close>
  (\<^verbatim>\<open>engine/sla_enforcer.py\<close>), \<^verbatim>\<open>ValidationEngine\<close> (\<^verbatim>\<open>engine/validation_engine.py\<close>) and
  \<^verbatim>\<open>PipelineGenerator\<close> (\<^verbatim>\<open>engine/pipeline_generator.py\<close>), with the attributes of
  \<^verbatim>\<open>DataContract\<close> that they read. Dictionaries are maps, objects are records passed in and
  returned, an exception is the left summand of a result, and each \<^verbatim>\<open>try\<close> is a case
  distinction on such a result. What the functions print is not modelled, and neither are
  the loading of contracts and data and the Lambda handler.
\<close>

section \<open>Python values, exceptions and the runtime\<close>

text \<open>
  The engine is Python over pandas. Contract values arrive from a YAML file, so a rule
  value is any scalar: \<open>PNone\<close> (null), an integer, a float or a string. A finite float
  is modelled by its exact value, a rational; booleans, non-finite floats and nested
  collections are not modelled as values.
\<close>

datatype pyval = PNone | PInt int | PFloat rat | PStr string

text \<open>
  An exception is a value. The payload names the operation that failed; the text that
  \<^verbatim>\<open>str(e)\<close> gives for it belongs to the interpreter and is a field of the runtime.
\<close>

datatype py_error =
    TypeError string
  | KeyError string
  | ValueError string
  | AttributeError string
  | ZeroDivisionError

text \<open>
  What the code takes from the interpreter and numpy and what a shallow embedding cannot
  compute exactly: the rounding of a true division to binary64, the text of a float, the
  text of \<^verbatim>\<open>format(x, ".2%")\<close>, and the text of an exception. Every function of the
  engine that needs one takes the runtime as its first argument, and every theorem holds
  for all runtimes.
\<close>

record runtime =
  truediv :: "int \<Rightarrow> int \<Rightarrow> rat"
  str_float :: "rat \<Rightarrow> string"
  format_percent :: "rat \<Rightarrow> string"
  str_exc :: "py_error \<Rightarrow> string"

definition type_name :: "pyval \<Rightarrow> string" where
  "type_name v = (case v of PNone \<Rightarrow> ''NoneType'' | PInt _ \<Rightarrow> ''int''
                  | PFloat _ \<Rightarrow> ''float'' | PStr _ \<Rightarrow> ''str'')"

text \<open>The text of a non-negative integer in base ten, and of an integer.\<close>

definition digit_char :: "nat \<Rightarrow> char" where
  "digit_char d = ''0123456789'' ! d"

fun str_nat :: "nat \<Rightarrow> string" where
  "str_nat n = (if n < 10 then [digit_char n] else str_nat (n div 10) @ [digit_char (n mod 10)])"

declare str_nat.simps [simp del]

definition str_int :: "int \<Rightarrow> string" where
  "str_int i = (if i < 0 then CHR ''-'' # str_nat (nat (- i)) else str_nat (nat i))"

text \<open>\<^verbatim>\<open>f"{v}"\<close> for a rule value.\<close>

definition str_val :: "runtime \<Rightarrow> pyval \<Rightarrow> string" where
  "str_val rt v = (case v of PNone \<Rightarrow> ''None'' | PInt k \<Rightarrow> str_int k
                   | PFloat q \<Rightarrow> str_float rt q | PStr s \<Rightarrow> s)"

text \<open>
  \<^verbatim>\<open>f"{v:.2%}"\<close>: a number is formatted as a percentage; a string or None has no such
  format and the f-string raises.
\<close>

definition format_pct :: "runtime \<Rightarrow> pyval \<Rightarrow> py_error + string" where
  "format_pct rt v = (case v of
       PInt k \<Rightarrow> Inr (format_percent rt (of_int k))
     | PFloat q \<Rightarrow> Inr (format_percent rt q)
     | PStr _ \<Rightarrow> Inl (ValueError ''format str with .2%'')
     | PNone \<Rightarrow> Inl (TypeError ''format NoneType with .2%''))"

text \<open>
  \<^verbatim>\<open>x < v\<close> and \<^verbatim>\<open>x > v\<close> for a number \<open>x\<close> (of the named Python type) and a rule value
  \<open>v\<close>: numbers compare by value, anything else raises TypeError.
\<close>

definition num_lt :: "string \<Rightarrow> rat \<Rightarrow> pyval \<Rightarrow> py_error + bool" where
  "num_lt ty x v = (case v of
       PInt k \<Rightarrow> Inr (x < of_int k)
     | PFloat q \<Rightarrow> Inr (x < q)
     | _ \<Rightarrow> Inl (TypeError (ty @ '' < '' @ type_name v)))"

definition num_gt :: "string \<Rightarrow> rat \<Rightarrow> pyval \<Rightarrow> py_error + bool" where
  "num_gt ty x v = (case v of
       PInt k \<Rightarrow> Inr (x > of_int k)
     | PFloat q \<Rightarrow> Inr (x > q)
     | _ \<Rightarrow> Inl (TypeError (ty @ '' > '' @ type_name v)))"

text \<open>
  The division of the completeness ratio. The source guards it with
  \<^verbatim>\<open>if total_cells > 0\<close>; the model makes a zero divisor an error, so that the guard
  has something to prevent.
\<close>

definition py_truediv :: "runtime \<Rightarrow> int \<Rightarrow> int \<Rightarrow> py_error + rat" where
  "py_truediv rt a b = (if b = 0 then Inl ZeroDivisionError else Inr (truediv rt a b))"

section \<open>The dataset\<close>

text \<open>
  A pandas DataFrame: the length of its index and its columns in order, each a label and
  its cells. A cell is missing (None or NaN), an integer of an int64 column (\<open>Int64\<close>), a
  number of a float64 column (\<open>Num\<close>, its exact value) or a string. In a frame that
  pandas builds every column has \<open>nrows\<close> cells; the number of rows is kept apart because
  a frame with no column can still have rows.
\<close>

datatype cell = Null | Int64 int | Num rat | Str string

record dataframe =
  nrows :: nat
  columns :: "(string \<times> cell list) list"

definition isna_sum :: "cell list \<Rightarrow> nat" where
  "isna_sum xs = length (filter (\<lambda>c. c = Null) xs)"

text \<open>\<^verbatim>\<open>df.isna().sum().sum()\<close>: the missing cells of the whole frame.\<close>

definition isna_sum_sum :: "dataframe \<Rightarrow> int" where
  "isna_sum_sum df = sum_list (map (\<lambda>(c, xs). int (isna_sum xs)) (columns df))"

section \<open>SLAEnforcer\<close>

type_synonym sla_rules = "string \<rightharpoonup> pyval"

record sla_results =
  timestamp :: string
  sla_passed :: bool
  violations :: "string list"
  metrics :: "string \<rightharpoonup> pyval"

text \<open>The object: \<^verbatim>\<open>self.sla_rules\<close> and \<^verbatim>\<open>self.metrics\<close>.\<close>

record sla_enforcer =
  sla_rules :: sla_rules
  self_metrics :: "string \<rightharpoonup> pyval"

definition SLAEnforcer_init :: "sla_rules \<Rightarrow> sla_enforcer" where
  "SLAEnforcer_init rules = \<lparr>sla_rules = rules, self_metrics = Map.empty\<rparr>"

text \<open>
  The \<^verbatim>\<open>results\<close> dictionary as \<^verbatim>\<open>enforce_sla\<close> creates it; the timestamp is the clock's
  reading, an input of the model.
\<close>

definition new_results :: "string \<Rightarrow> sla_results" where
  "new_results now = \<lparr>timestamp = now, sla_passed = True, violations = [], metrics = Map.empty\<rparr>"

text \<open>
  A block inside the \<^verbatim>\<open>try\<close>: it ends normally with the dictionary as it has become
  (\<open>Inr\<close>), or raises, leaving the dictionary as it was at the raise (\<open>Inl\<close>).
\<close>

type_synonym 'a raising = "(py_error \<times> 'a) + 'a"

definition min_rows_message :: "runtime \<Rightarrow> nat \<Rightarrow> pyval \<Rightarrow> string" where
  "min_rows_message rt row_count v =
     ''Row count '' @ str_int (int row_count) @ '' is less than minimum '' @ str_val rt v"

definition max_rows_message :: "runtime \<Rightarrow> nat \<Rightarrow> pyval \<Rightarrow> string" where
  "max_rows_message rt row_count v =
     ''Row count '' @ str_int (int row_count) @ '' exceeds maximum '' @ str_val rt v"

definition completeness_message :: "string \<Rightarrow> string \<Rightarrow> string" where
  "completeness_message c t = ''Completeness '' @ c @ '' is below threshold '' @ t"

text \<open>\<^verbatim>\<open>if "min_rows" in self.sla_rules: ...\<close>\<close>

definition check_min_rows :: "runtime \<Rightarrow> sla_rules \<Rightarrow> nat \<Rightarrow> sla_results \<Rightarrow> sla_results raising" where
  "check_min_rows rt rules row_count results =
     (case rules ''min_rows'' of
        None \<Rightarrow> Inr results
      | Some min_rows \<Rightarrow>
          let results1 = results\<lparr>metrics := (metrics results)(''row_count'' \<mapsto> PInt (int row_count))\<rparr>
          in (case num_lt ''int'' (of_nat row_count) min_rows of
                Inl e \<Rightarrow> Inl (e, results1)
              | Inr too_low \<Rightarrow>
                  if too_low
                  then Inr (results1\<lparr>sla_passed := False,
                              violations := violations results1 @ [min_rows_message rt row_count min_rows]\<rparr>)
                  else Inr results1))"

text \<open>\<^verbatim>\<open>if "max_rows" in self.sla_rules: ...\<close>\<close>

definition check_max_rows :: "runtime \<Rightarrow> sla_rules \<Rightarrow> nat \<Rightarrow> sla_results \<Rightarrow> sla_results raising" where
  "check_max_rows rt rules row_count results =
     (case rules ''max_rows'' of
        None \<Rightarrow> Inr results
      | Some max_rows \<Rightarrow>
          (case num_gt ''int'' (of_nat row_count) max_rows of
             Inl e \<Rightarrow> Inl (e, results)
           | Inr exceeds \<Rightarrow>
               if exceeds
               then Inr (results\<lparr>sla_passed := False,
                           violations := violations results @ [max_rows_message rt row_count max_rows]\<rparr>)
               else Inr results))"

text \<open>
  \<^verbatim>\<open>if "completeness_threshold" in self.sla_rules: ...\<close> The ratio is a numpy float64 when
  it comes from the division and the Python float 1.0 otherwise. The f-string is
  evaluated after \<^verbatim>\<open>sla_passed\<close> has been cleared and before the append.
\<close>

definition completeness_of :: "runtime \<Rightarrow> dataframe \<Rightarrow> nat \<Rightarrow> py_error + rat" where
  "completeness_of rt df row_count =
     (let total_cells = int row_count * int (length (columns df));
          null_cells = isna_sum_sum df
      in if total_cells > 0 then py_truediv rt (total_cells - null_cells) total_cells else Inr 1)"

definition completeness_type :: "dataframe \<Rightarrow> nat \<Rightarrow> string" where
  "completeness_type df row_count =
     (if int row_count * int (length (columns df)) > 0 then ''numpy.float64'' else ''float'')"

definition check_completeness ::
  "runtime \<Rightarrow> sla_rules \<Rightarrow> dataframe \<Rightarrow> nat \<Rightarrow> sla_results \<Rightarrow> sla_results raising" where
  "check_completeness rt rules df row_count results =
     (case rules ''completeness_threshold'' of
        None \<Rightarrow> Inr results
      | Some threshold \<Rightarrow>
          (case completeness_of rt df row_count of
             Inl e \<Rightarrow> Inl (e, results)
           | Inr completeness \<Rightarrow>
               let results1 = results\<lparr>metrics := (metrics results)(''completeness'' \<mapsto> PFloat completeness)\<rparr>
               in (case num_lt (completeness_type df row_count) completeness threshold of
                     Inl e \<Rightarrow> Inl (e, results1)
                   | Inr too_low \<Rightarrow>
                       if too_low
                       then (let results2 = results1\<lparr>sla_passed := False\<rparr>
                             in case format_pct rt threshold of
                                  Inl e \<Rightarrow> Inl (e, results2)
                                | Inr t \<Rightarrow>
                                    Inr (results2\<lparr>violations := violations results2 @
                                           [completeness_message (format_percent rt completeness) t]\<rparr>))
                       else Inr results1)))"

text \<open>The body of the \<^verbatim>\<open>try\<close>: the three blocks in order; a raise skips the rest.\<close>

definition enforce_sla_body :: "runtime \<Rightarrow> sla_rules \<Rightarrow> dataframe \<Rightarrow> sla_results \<Rightarrow> sla_results raising" where
  "enforce_sla_body rt rules df results =
     (let row_count = nrows df
      in case check_min_rows rt rules row_count results of
           Inl x \<Rightarrow> Inl x
         | Inr results1 \<Rightarrow>
             (case check_max_rows rt rules row_count results1 of
                Inl x \<Rightarrow> Inl x
              | Inr results2 \<Rightarrow> check_completeness rt rules df row_count results2))"

text \<open>\<^verbatim>\<open>except Exception as e: ...\<close>\<close>

definition on_exception :: "runtime \<Rightarrow> py_error \<Rightarrow> sla_results \<Rightarrow> sla_results" where
  "on_exception rt e results =
     results\<lparr>sla_passed := False,
             violations := violations results @ [''Error enforcing SLA: '' @ str_exc rt e]\<rparr>"

text \<open>
  \<^verbatim>\<open>enforce_sla\<close> returns the dictionary; the object is returned with it, as the call
  leaves it.
\<close>

definition enforce_sla :: "runtime \<Rightarrow> string \<Rightarrow> sla_enforcer \<Rightarrow> dataframe \<Rightarrow> sla_results \<times> sla_enforcer" where
  "enforce_sla rt now self df =
     (case enforce_sla_body rt (sla_rules self) df (new_results now) of
        Inr results \<Rightarrow> (results, self)
      | Inl (e, results) \<Rightarrow> (on_exception rt e results, self))"

definition get_metrics :: "sla_enforcer \<Rightarrow> (string \<rightharpoonup> pyval)" where
  "get_metrics self = self_metrics self"

section \<open>ValidationEngine\<close>

text \<open>
  The schema is a dictionary; the engine reads its key \<^verbatim>\<open>columns\<close> only. The value of a
  key is a mapping (its entries in order) or a scalar.
\<close>

datatype schema_val = SMapping "(string \<times> pyval) list" | SScalar pyval

type_synonym schema = "string \<rightharpoonup> schema_val"

record validation_engine =
  schema :: schema

definition ValidationEngine_init :: "schema \<Rightarrow> validation_engine" where
  "ValidationEngine_init s = \<lparr>schema = s\<rparr>"

text \<open>
  \<^verbatim>\<open>self.schema.get("columns", {}).keys()\<close>: a scalar has no \<^verbatim>\<open>keys\<close>, and the call raises
  AttributeError.
\<close>

definition contract_column_names :: "validation_engine \<Rightarrow> py_error + string list" where
  "contract_column_names self =
     (case schema self ''columns'' of
        None \<Rightarrow> Inr []
      | Some (SMapping m) \<Rightarrow> Inr (map fst m)
      | Some (SScalar v) \<Rightarrow> Inl (AttributeError (type_name v @ ''.keys'')))"

text \<open>The loop over the contract's columns: the first one the frame lacks ends it.\<close>

fun all_columns_exist :: "string list \<Rightarrow> string list \<Rightarrow> bool" where
  "all_columns_exist [] df_columns = True"
| "all_columns_exist (col_name # rest) df_columns =
     (if col_name \<notin> set df_columns then False else all_columns_exist rest df_columns)"

definition validate_schema :: "validation_engine \<Rightarrow> dataframe \<Rightarrow> bool" where
  "validate_schema self df =
     (case contract_column_names self of
        Inl e \<Rightarrow> False
      | Inr names \<Rightarrow> all_columns_exist names (map fst (columns df)))"

text \<open>
  \<^verbatim>\<open>df[label]\<close>: the column of that label, a frame of all the columns that carry it when
  the label is repeated, KeyError when no column has it.
\<close>

datatype selection = Series "cell list" | Frame "cell list list"

definition getitem :: "dataframe \<Rightarrow> string \<Rightarrow> py_error + selection" where
  "getitem df label =
     (case map snd (filter (\<lambda>(l, xs). l = label) (columns df)) of
        [] \<Rightarrow> Inl (KeyError label)
      | [xs] \<Rightarrow> Inr (Series xs)
      | xss \<Rightarrow> Inr (Frame xss))"

record quality_results =
  total_rows :: nat
  null_counts :: "string \<rightharpoonup> int"
  duplicate_rows :: int
  validation_passed :: bool
  error :: "string option"

text \<open>
  The loop that fills \<^verbatim>\<open>null_counts\<close>. Under a repeated label \<^verbatim>\<open>df[col].isna().sum()\<close>
  is a Series and \<^verbatim>\<open>int\<close> of it raises TypeError.
\<close>

fun count_nulls :: "dataframe \<Rightarrow> string list \<Rightarrow> quality_results \<Rightarrow> quality_results raising" where
  "count_nulls df [] results = Inr results"
| "count_nulls df (col # rest) results =
     (case getitem df col of
        Inl e \<Rightarrow> Inl (e, results)
      | Inr (Series xs) \<Rightarrow>
          count_nulls df rest (results\<lparr>null_counts := (null_counts results)(col \<mapsto> int (isna_sum xs))\<rparr>)
      | Inr (Frame xss) \<Rightarrow> Inl (TypeError ''int(Series)'', results))"

text \<open>
  The rows of the frame, and \<^verbatim>\<open>len(df.drop_duplicates())\<close>: pandas returns an empty frame
  (no row or no column) as it is, and otherwise keeps one row of each value. A cell past
  the end of a short column, which pandas never builds, reads as missing.
\<close>

definition cell_at :: "cell list \<Rightarrow> nat \<Rightarrow> cell" where
  "cell_at xs i = (if i < length xs then xs ! i else Null)"

definition rows :: "dataframe \<Rightarrow> cell list list" where
  "rows df = map (\<lambda>i. map (\<lambda>(l, xs). cell_at xs i) (columns df)) [0..<nrows df]"

definition drop_duplicates_len :: "dataframe \<Rightarrow> nat" where
  "drop_duplicates_len df =
     (if nrows df = 0 \<or> columns df = [] then nrows df else length (remdups (rows df)))"

definition validate_data_quality :: "runtime \<Rightarrow> validation_engine \<Rightarrow> dataframe \<Rightarrow> quality_results" where
  "validate_data_quality rt self df =
     (let results = \<lparr>total_rows = nrows df, null_counts = Map.empty, duplicate_rows = 0,
                     validation_passed = True, error = None\<rparr>
      in case count_nulls df (map fst (columns df)) results of
           Inr results1 \<Rightarrow>
             results1\<lparr>duplicate_rows := int (nrows df) - int (drop_duplicates_len df)\<rparr>
         | Inl (e, results1) \<Rightarrow>
             results1\<lparr>validation_passed := False, error := Some (str_exc rt e)\<rparr>)"

subsection \<open>Constraints\<close>

text \<open>
  A constraint is a dictionary; \<^verbatim>\<open>constraint.get(key)\<close> is None for a key it lacks.
\<close>

type_synonym constraint = "string \<rightharpoonup> pyval"

definition dict_get :: "constraint \<Rightarrow> string \<Rightarrow> pyval" where
  "dict_get d k = (case d k of None \<Rightarrow> PNone | Some v \<Rightarrow> v)"

text \<open>\<^verbatim>\<open>df[column]\<close> for the value a constraint names: only a string can be a label.\<close>

definition getitem_val :: "dataframe \<Rightarrow> pyval \<Rightarrow> py_error + selection" where
  "getitem_val df column =
     (case column of PStr label \<Rightarrow> getitem df label | _ \<Rightarrow> Inl (KeyError (type_name column)))"

text \<open>Strings compare as Python compares them, character by character.\<close>

fun str_lt :: "string \<Rightarrow> string \<Rightarrow> bool" where
  "str_lt [] [] = False"
| "str_lt [] (y # ys) = True"
| "str_lt (x # xs) [] = False"
| "str_lt (x # xs) (y # ys) =
     (if (of_char x :: nat) < of_char y then True
      else if (of_char y :: nat) < of_char x then False
      else str_lt xs ys)"

text \<open>
  The binary64 number nearest to an integer, ties to the even significand: what numpy
  makes of an integer operand that meets a float. Integers up to \<open>2 ^ 53\<close> in magnitude are
  kept; a longer one keeps its 53 leading bits, rounded. The function is meant for the
  integers of 64 bits; the range of binary64 is not modelled.
\<close>

fun bit_length :: "nat \<Rightarrow> nat" where
  "bit_length n = (if n = 0 then 0 else Suc (bit_length (n div 2)))"

declare bit_length.simps [simp del]

definition float64_of_nat :: "nat \<Rightarrow> nat" where
  "float64_of_nat n =
     (if n \<le> 2 ^ 53 then n
      else (let e = bit_length n - 53;
                q = n div 2 ^ e;
                r = n mod 2 ^ e;
                half = 2 ^ (e - 1)
            in (if r > half \<or> (r = half \<and> odd q) then q + 1 else q) * 2 ^ e))"

definition float64_of_int :: "int \<Rightarrow> rat" where
  "float64_of_int k =
     (if k < 0 then - of_nat (float64_of_nat (nat (- k))) else of_nat (float64_of_nat (nat k)))"

text \<open>
  The integers, the float64 values and the strings of a column. A column is int64 when
  it is not empty and all its cells are integers; in any other column without strings
  pandas holds the numbers as float64, an integer among them converted.
\<close>

definition ints :: "cell list \<Rightarrow> int list" where
  "ints xs = concat (map (\<lambda>c. case c of Int64 i \<Rightarrow> [i] | _ \<Rightarrow> []) xs)"

definition floats :: "cell list \<Rightarrow> rat list" where
  "floats xs =
     concat (map (\<lambda>c. case c of Int64 i \<Rightarrow> [float64_of_int i] | Num r \<Rightarrow> [r] | _ \<Rightarrow> []) xs)"

definition strs :: "cell list \<Rightarrow> string list" where
  "strs xs = concat (map (\<lambda>c. case c of Str s \<Rightarrow> [s] | _ \<Rightarrow> []) xs)"

definition is_int64 :: "cell list \<Rightarrow> bool" where
  "is_int64 xs = (xs \<noteq> [] \<and> length (ints xs) = length xs)"

text \<open>
  \<^verbatim>\<open>Series.min()\<close> and \<^verbatim>\<open>Series.max()\<close>, as pandas 3 has them. An int64 column gives an
  integer. Any other column without strings is float64: missing cells are skipped, and
  with no number left the result is NaN (\<open>Null\<close>). A column of strings gives its least
  (greatest) string, missing cells skipped; a number among the strings makes the
  comparison raise TypeError.
\<close>

definition series_min :: "cell list \<Rightarrow> py_error + cell" where
  "series_min xs =
     (case strs xs of
        [] \<Rightarrow>
          if is_int64 xs
          then (case ints xs of [] \<Rightarrow> Inr Null | i # rest \<Rightarrow> Inr (Int64 (fold min rest i)))
          else (case floats xs of [] \<Rightarrow> Inr Null | r # rest \<Rightarrow> Inr (Num (fold min rest r)))
      | s # ss \<Rightarrow>
          if floats xs \<noteq> [] then Inl (TypeError ''min of a mixed column'')
          else Inr (Str (fold (\<lambda>a b. if str_lt a b then a else b) ss s)))"

definition series_max :: "cell list \<Rightarrow> py_error + cell" where
  "series_max xs =
     (case strs xs of
        [] \<Rightarrow>
          if is_int64 xs
          then (case ints xs of [] \<Rightarrow> Inr Null | i # rest \<Rightarrow> Inr (Int64 (fold max rest i)))
          else (case floats xs of [] \<Rightarrow> Inr Null | r # rest \<Rightarrow> Inr (Num (fold max rest r)))
      | s # ss \<Rightarrow>
          if floats xs \<noteq> [] then Inl (TypeError ''max of a mixed column'')
          else Inr (Str (fold (\<lambda>a b. if str_lt b a then a else b) ss s)))"

text \<open>
  \<^verbatim>\<open>min_val < value\<close> and \<^verbatim>\<open>max_val > value\<close>, a numpy scalar against a Python value.
  Two integers compare exactly, and so do two floats. An integer against a float is
  first converted to binary64, on either side. NaN is neither below nor above any number;
  a number and a string, or anything and None, do not compare.
\<close>

definition cell_lt :: "cell \<Rightarrow> pyval \<Rightarrow> py_error + bool" where
  "cell_lt c v =
     (case c of
        Null \<Rightarrow> (case v of PInt _ \<Rightarrow> Inr False | PFloat _ \<Rightarrow> Inr False
                  | _ \<Rightarrow> Inl (TypeError (''float < '' @ type_name v)))
      | Int64 i \<Rightarrow> (case v of PInt k \<Rightarrow> Inr (i < k)
                   | PFloat q \<Rightarrow> Inr (float64_of_int i < q)
                   | _ \<Rightarrow> Inl (TypeError (''numpy.int64 < '' @ type_name v)))
      | Num r \<Rightarrow> (case v of PInt k \<Rightarrow> Inr (r < float64_of_int k)
                   | PFloat q \<Rightarrow> Inr (r < q)
                   | _ \<Rightarrow> Inl (TypeError (''numpy.float64 < '' @ type_name v)))
      | Str s \<Rightarrow> (case v of PStr t \<Rightarrow> Inr (str_lt s t)
                   | _ \<Rightarrow> Inl (TypeError (''str < '' @ type_name v))))"

definition cell_gt :: "cell \<Rightarrow> pyval \<Rightarrow> py_error + bool" where
  "cell_gt c v =
     (case c of
        Null \<Rightarrow> (case v of PInt _ \<Rightarrow> Inr False | PFloat _ \<Rightarrow> Inr False
                  | _ \<Rightarrow> Inl (TypeError (''float > '' @ type_name v)))
      | Int64 i \<Rightarrow> (case v of PInt k \<Rightarrow> Inr (i > k)
                   | PFloat q \<Rightarrow> Inr (float64_of_int i > q)
                   | _ \<Rightarrow> Inl (TypeError (''numpy.int64 > '' @ type_name v)))
      | Num r \<Rightarrow> (case v of PInt k \<Rightarrow> Inr (r > float64_of_int k)
                   | PFloat q \<Rightarrow> Inr (r > q)
                   | _ \<Rightarrow> Inl (TypeError (''numpy.float64 > '' @ type_name v)))
      | Str s \<Rightarrow> (case v of PStr t \<Rightarrow> Inr (str_lt t s)
                   | _ \<Rightarrow> Inl (TypeError (''str > '' @ type_name v))))"

text \<open>
  One pass of the loop body: \<open>Inr True\<close> when the loop goes on, \<open>Inr False\<close> when the body
  returns False, \<open>Inl\<close> when it raises. On a frame (a repeated label) the test of the
  \<^verbatim>\<open>if\<close> is a Series, whose truth value raises ValueError.
\<close>

definition check_constraint :: "dataframe \<Rightarrow> constraint \<Rightarrow> py_error + bool" where
  "check_constraint df constraint =
     (let constraint_type = dict_get constraint ''type'';
          column = dict_get constraint ''column'';
          val = dict_get constraint ''value''
      in if constraint_type = PStr ''not_null'' then
           (case getitem_val df column of
              Inl e \<Rightarrow> Inl e
            | Inr (Frame xss) \<Rightarrow> Inl (ValueError ''truth value of a Series'')
            | Inr (Series xs) \<Rightarrow> if isna_sum xs > 0 then Inr False else Inr True)
         else if constraint_type = PStr ''min_value'' then
           (case getitem_val df column of
              Inl e \<Rightarrow> Inl e
            | Inr (Frame xss) \<Rightarrow> Inl (ValueError ''truth value of a Series'')
            | Inr (Series xs) \<Rightarrow>
                (case series_min xs of
                   Inl e \<Rightarrow> Inl e
                 | Inr min_val \<Rightarrow>
                     (case cell_lt min_val val of
                        Inl e \<Rightarrow> Inl e
                      | Inr violated \<Rightarrow> if violated then Inr False else Inr True)))
         else if constraint_type = PStr ''max_value'' then
           (case getitem_val df column of
              Inl e \<Rightarrow> Inl e
            | Inr (Frame xss) \<Rightarrow> Inl (ValueError ''truth value of a Series'')
            | Inr (Series xs) \<Rightarrow>
                (case series_max xs of
                   Inl e \<Rightarrow> Inl e
                 | Inr max_val \<Rightarrow>
                     (case cell_gt max_val val of
                        Inl e \<Rightarrow> Inl e
                      | Inr violated \<Rightarrow> if violated then Inr False else Inr True)))
         else Inr True)"

fun check_constraints :: "dataframe \<Rightarrow> constraint list \<Rightarrow> py_error + bool" where
  "check_constraints df [] = Inr True"
| "check_constraints df (constraint # rest) =
     (case check_constraint df constraint of
        Inl e \<Rightarrow> Inl e
      | Inr ok \<Rightarrow> if ok then check_constraints df rest else Inr False)"

text \<open>The \<^verbatim>\<open>try\<close> around the loop turns every exception into False.\<close>

definition validate_constraints :: "validation_engine \<Rightarrow> dataframe \<Rightarrow> constraint list \<Rightarrow> bool" where
  "validate_constraints self df constraints =
     (case check_constraints df constraints of Inl e \<Rightarrow> False | Inr ok \<Rightarrow> ok)"

section \<open>DataContract and PipelineGenerator\<close>

record data_contract =
  contract_name :: string
  version :: string
  source_s3_path :: "string option"
  target_s3_path :: "string option"
  contract_schema :: schema
  sla :: sla_rules
  transformations :: "pyval list"

definition get_schema :: "data_contract \<Rightarrow> schema" where
  "get_schema c = contract_schema c"

definition get_sla :: "data_contract \<Rightarrow> sla_rules" where
  "get_sla c = sla c"

text \<open>
  A step of the report: its \<^verbatim>\<open>details\<close> are a text, the quality results or the SLA
  results.
\<close>

datatype details = Text string | Quality quality_results | Sla sla_results

record step =
  name :: string
  status :: string
  details :: details

record report =
  input_rows :: nat
  steps :: "step list"
  success :: bool

text \<open>
  The object. \<^verbatim>\<open>self.pipeline_results\<close> is the empty dictionary (\<open>None\<close>) until the first
  run, and the report of the last run afterwards.
\<close>

record pipeline_generator =
  contract :: data_contract
  validation_engine :: validation_engine
  sla_enforcer :: sla_enforcer
  pipeline_results :: "report option"

definition PipelineGenerator_init :: "data_contract \<Rightarrow> pipeline_generator" where
  "PipelineGenerator_init c =
     \<lparr>contract = c,
      validation_engine = ValidationEngine_init (get_schema c),
      sla_enforcer = SLAEnforcer_init (get_sla c),
      pipeline_results = None\<rparr>"

text \<open>The report as \<^verbatim>\<open>generate\<close> creates it.\<close>

definition new_report :: "dataframe \<Rightarrow> report" where
  "new_report df = \<lparr>input_rows = nrows df, steps = [], success = True\<rparr>"

text \<open>
  What each step writes into the report, given what its check returned. Step 1 appends
  its entry and clears \<^verbatim>\<open>success\<close> on a failed schema; step 2 appends its entry; step 3
  appends its entry and clears \<^verbatim>\<open>success\<close> on a failed SLA.
\<close>

definition record_schema_validation :: "bool \<Rightarrow> report \<Rightarrow> report" where
  "record_schema_validation schema_valid r =
     (let r1 = r\<lparr>steps := steps r @
                 [\<lparr>name = ''schema_validation'',
                   status = (if schema_valid then ''passed'' else ''failed''),
                   details = Text (''Schema validation '' @ (if schema_valid then ''passed'' else ''failed''))\<rparr>]\<rparr>
      in if \<not> schema_valid then r1\<lparr>success := False\<rparr> else r1)"

definition record_data_quality :: "quality_results \<Rightarrow> report \<Rightarrow> report" where
  "record_data_quality quality_results r =
     r\<lparr>steps := steps r @
        [\<lparr>name = ''data_quality'', status = ''completed'', details = Quality quality_results\<rparr>]\<rparr>"

definition record_sla_enforcement :: "sla_results \<Rightarrow> report \<Rightarrow> report" where
  "record_sla_enforcement sla_results r =
     (let r1 = r\<lparr>steps := steps r @
                 [\<lparr>name = ''sla_enforcement'',
                   status = (if sla_passed sla_results then ''passed'' else ''failed''),
                   details = Sla sla_results\<rparr>]\<rparr>
      in if \<not> sla_passed sla_results then r1\<lparr>success := False\<rparr> else r1)"

text \<open>
  The methods of its two collaborators that a run calls, in the order of the calls. The
  log is not data of the program: it is kept so that a statement can say which checks a
  run invoked.
\<close>

datatype call = Validate_schema | Validate_data_quality | Enforce_sla

text \<open>
  \<^verbatim>\<open>generate\<close> returns the report, the object as the run leaves it (the report cached
  in it), and the log of the calls.
\<close>

definition generate ::
  "runtime \<Rightarrow> string \<Rightarrow> pipeline_generator \<Rightarrow> dataframe \<Rightarrow> report \<times> pipeline_generator \<times> call list" where
  "generate rt now self df =
     (let r0 = new_report df;
          schema_valid = validate_schema (validation_engine self) df;
          calls1 = [Validate_schema];
          r1 = record_schema_validation schema_valid r0
      in if \<not> schema_valid then (r1, self\<lparr>pipeline_results := Some r1\<rparr>, calls1)
         else
           (let quality_results = validate_data_quality rt (validation_engine self) df;
                calls2 = calls1 @ [Validate_data_quality];
                r2 = record_data_quality quality_results r1;
                (sla_results, enforcer) = enforce_sla rt now (sla_enforcer self) df;
                calls3 = calls2 @ [Enforce_sla];
                r3 = record_sla_enforcement sla_results r2
            in (r3, self\<lparr>sla_enforcer := enforcer, pipeline_results := Some r3\<rparr>, calls3)))"

definition get_results :: "pipeline_generator \<Rightarrow> report option" where
  "get_results self = pipeline_results self"

section \<open>Notions used in the statements\<close>

text \<open>The dictionary a block leaves behind, whether it ended normally or raised.\<close>

definition state_of :: "'a raising \<Rightarrow> 'a" where
  "state_of x = (case x of Inl (e, s) \<Rightarrow> s | Inr s \<Rightarrow> s)"

text \<open>The value of a rule value that is a number, and a rule that is absent or a number.\<close>

definition num_of :: "pyval \<Rightarrow> rat option" where
  "num_of v = (case v of PInt k \<Rightarrow> Some (of_int k) | PFloat q \<Rightarrow> Some q | _ \<Rightarrow> None)"

definition numeric_rule :: "sla_rules \<Rightarrow> string \<Rightarrow> bool" where
  "numeric_rule rules key = (case rules key of None \<Rightarrow> True | Some v \<Rightarrow> num_of v \<noteq> None)"

text \<open>Two results with the same verdict: they differ in their metrics at most.\<close>

definition same_verdict :: "sla_results \<Rightarrow> sla_results \<Rightarrow> bool" where
  "same_verdict r r' = (sla_passed r = sla_passed r' \<and> violations r = violations r')"

text \<open>A sequence of calls of \<^verbatim>\<open>enforce_sla\<close> on one object, each with its clock reading.\<close>

fun enforce_sla_calls :: "runtime \<Rightarrow> sla_enforcer \<Rightarrow> (string \<times> dataframe) list \<Rightarrow> sla_enforcer" where
  "enforce_sla_calls rt self [] = self"
| "enforce_sla_calls rt self ((now, df) # rest) =
     enforce_sla_calls rt (snd (enforce_sla rt now self df)) rest"

text \<open>
  What the three rules of the SLA ask for, each on its own, written from the
  specification: the completeness ratio, and for each rule the messages it owes (one when
  the rule is configured with a number and violated, none otherwise).
\<close>

definition completeness_value :: "runtime \<Rightarrow> dataframe \<Rightarrow> rat" where
  "completeness_value rt df =
     (let total_cells = int (nrows df) * int (length (columns df))
      in if total_cells = 0 then 1 else truediv rt (total_cells - isna_sum_sum df) total_cells)"

definition min_rows_violation :: "runtime \<Rightarrow> sla_rules \<Rightarrow> dataframe \<Rightarrow> string list" where
  "min_rows_violation rt rules df =
     (case rules ''min_rows'' of
        None \<Rightarrow> []
      | Some v \<Rightarrow>
          (case num_of v of
             None \<Rightarrow> []
           | Some m \<Rightarrow> if of_nat (nrows df) < m then [min_rows_message rt (nrows df) v] else []))"

definition max_rows_violation :: "runtime \<Rightarrow> sla_rules \<Rightarrow> dataframe \<Rightarrow> string list" where
  "max_rows_violation rt rules df =
     (case rules ''max_rows'' of
        None \<Rightarrow> []
      | Some v \<Rightarrow>
          (case num_of v of
             None \<Rightarrow> []
           | Some m \<Rightarrow> if of_nat (nrows df) > m then [max_rows_message rt (nrows df) v] else []))"


text \<open>A constraint whose type the checker knows.\<close>

definition recognized :: "constraint \<Rightarrow> bool" where
  "recognized c =
     (dict_get c ''type'' = PStr ''not_null'' \<or> dict_get c ''type'' = PStr ''min_value''
      \<or> dict_get c ''type'' = PStr ''max_value'')"

text \<open>The dictionary of a bound constraint: its type, its column and its value.\<close>

definition bound_constraint :: "string \<Rightarrow> string \<Rightarrow> pyval \<Rightarrow> constraint" where
  "bound_constraint kind label v = [''type'' \<mapsto> PStr kind, ''column'' \<mapsto> PStr label, ''value'' \<mapsto> v]"

text \<open>
  A numeric column, its minimum and maximum as numbers, and a value that numpy compares
  with the column without rounding: two integers, two floats, or a mixed pair whose
  integers are at most \<open>2 ^ 53\<close> in magnitude.
\<close>

definition numeric_column :: "cell list \<Rightarrow> bool" where
  "numeric_column xs = (strs xs = [] \<and> floats xs \<noteq> [])"

definition column_min :: "cell list \<Rightarrow> rat" where
  "column_min xs = (if is_int64 xs then of_int (Min (set (ints xs))) else Min (set (floats xs)))"

definition column_max :: "cell list \<Rightarrow> rat" where
  "column_max xs = (if is_int64 xs then of_int (Max (set (ints xs))) else Max (set (floats xs)))"

definition exact_comparison :: "cell list \<Rightarrow> pyval \<Rightarrow> bool" where
  "exact_comparison xs v =
     (case v of
        PInt k \<Rightarrow> is_int64 xs \<or> \<bar>k\<bar> \<le> 2 ^ 53
      | PFloat q \<Rightarrow> \<not> is_int64 xs \<or> list_all (\<lambda>i. \<bar>i\<bar> \<le> 2 ^ 53) (ints xs)
      | _ \<Rightarrow> False)"

subsection \<open>Inputs for evaluation\<close>

text \<open>
  A runtime to evaluate the model with: the division is exact and the texts are
  placeholders. No statement depends on it; it only makes the evaluated instances closed.
\<close>

definition test_runtime :: runtime where
  "test_runtime =
     \<lparr>truediv = (\<lambda>a b. of_int a / of_int b),
      str_float = (\<lambda>q. ''<float>''),
      format_percent = (\<lambda>q. ''<percent>''),
      str_exc = (\<lambda>e. ''<exception>'')\<rparr>"

definition two_rows :: dataframe where
  "two_rows = \<lparr>nrows = 2, columns = [(''id'', [Int64 1, Int64 2]), (''name'', [Str ''john'', Str ''jane''])]\<rparr>"

definition email_contract :: data_contract where
  "email_contract =
     \<lparr>contract_name = ''Test Contract'', version = ''1.0'',
      source_s3_path = None, target_s3_path = None,
      contract_schema = [''columns'' \<mapsto> SMapping [(''email'', PStr ''string'')]],
      sla = Map.empty, transformations = []\<rparr>"

definition id_name_contract :: data_contract where
  "id_name_contract =
     \<lparr>contract_name = ''Test Contract'', version = ''1.0'',
      source_s3_path = None, target_s3_path = None,
      contract_schema = [''columns'' \<mapsto> SMapping [(''id'', PStr ''integer''), (''name'', PStr ''string'')]],
      sla = [''min_rows'' \<mapsto> PInt 100], transformations = []\<rparr>"

definition failed_report :: report where
  "failed_report = record_schema_validation False (new_report two_rows)"

definition failed_results :: sla_results where
  "failed_results = on_exception test_runtime (TypeError ''int < str'') (new_results ''t'')"

definition no_rows :: dataframe where
  "no_rows = \<lparr>nrows = 0, columns = [(''id'', [])]\<rparr>"


definition ages :: dataframe where
  "ages = \<lparr>nrows = 3, columns = [(''age'', [Int64 18, Int64 25, Int64 30])]\<rparr>"



definition malformed_min_rules :: sla_rules where
  "malformed_min_rules = [''min_rows'' \<mapsto> PStr ''ten'', ''completeness_threshold'' \<mapsto> PFloat (1 / 2)]"

definition lenient_rules :: sla_rules where
  "lenient_rules = [''min_rows'' \<mapsto> PInt 0, ''completeness_threshold'' \<mapsto> PFloat (19 / 20)]"

definition unknown_constraints :: "constraint list" where
  "unknown_constraints =
     [[''type'' \<mapsto> PStr ''unique'', ''column'' \<mapsto> PStr ''email''],
      [''column'' \<mapsto> PStr ''id'', ''value'' \<mapsto> PInt 5]]"

definition big_floats :: dataframe where
  "big_floats = \<lparr>nrows = 1, columns = [(''x'', [Num 9007199254740992])]\<rparr>"

definition big_ints :: dataframe where
  "big_ints = \<lparr>nrows = 1, columns = [(''x'', [Int64 9007199254740993])]\<rparr>"

section \<open>The pipeline\<close>

text \<open>
  C1. When the schema check fails, the report of \<^verbatim>\<open>generate\<close> has \<^verbatim>\<open>success\<close> false and
  exactly one step, named \<^verbatim>\<open>schema_validation\<close> with status \<^verbatim>\<open>failed\<close>; no step is
  named \<^verbatim>\<open>data_quality\<close> or \<^verbatim>\<open>sla_enforcement\<close>, and the run calls neither
  \<^verbatim>\<open>validate_data_quality\<close> nor \<^verbatim>\<open>enforce_sla\<close>.
\<close>

theorem schema_failure_short_circuits:
  assumes "\<not> validate_schema (validation_engine self) df"
  shows "\<not> success (fst (generate rt now self df))
       \<and> steps (fst (generate rt now self df)) =
           [\<lparr>name = ''schema_validation'', status = ''failed'',
             details = Text ''Schema validation failed''\<rparr>]
       \<and> ''data_quality'' \<notin> set (map name (steps (fst (generate rt now self df))))
       \<and> ''sla_enforcement'' \<notin> set (map name (steps (fst (generate rt now self df))))
       \<and> snd (snd (generate rt now self df)) = [Validate_schema]
       \<and> Validate_data_quality \<notin> set (snd (snd (generate rt now self df)))
       \<and> Enforce_sla \<notin> set (snd (snd (generate rt now self df)))"
  using assms
  by (simp add: generate_def new_report_def record_schema_validation_def Let_def)

lemma email_missing:
  "\<not> validate_schema (validation_engine (PipelineGenerator_init email_contract)) two_rows"
  by (simp add: validate_schema_def PipelineGenerator_init_def ValidationEngine_init_def
      get_schema_def email_contract_def contract_column_names_def two_rows_def)

theorem schema_failure_short_circuits_witness:
  "\<not> validate_schema (validation_engine (PipelineGenerator_init email_contract)) two_rows
   \<and> \<not> success (fst (generate test_runtime ''t'' (PipelineGenerator_init email_contract) two_rows))
   \<and> map name (steps (fst (generate test_runtime ''t'' (PipelineGenerator_init email_contract) two_rows)))
       = [''schema_validation'']
   \<and> map status (steps (fst (generate test_runtime ''t'' (PipelineGenerator_init email_contract) two_rows)))
       = [''failed'']
   \<and> snd (snd (generate test_runtime ''t'' (PipelineGenerator_init email_contract) two_rows))
       = [Validate_schema]"
  using schema_failure_short_circuits [OF email_missing, of test_runtime "''t''"] email_missing
  by simp

text \<open>
  C2. When the schema check passes, the report of \<^verbatim>\<open>generate\<close> has exactly three steps,
  named \<^verbatim>\<open>schema_validation\<close>, \<^verbatim>\<open>data_quality\<close> and \<^verbatim>\<open>sla_enforcement\<close>, in this order.
\<close>

theorem schema_pass_three_steps:
  assumes "validate_schema (validation_engine self) df"
  shows "length (steps (fst (generate rt now self df))) = 3
       \<and> map name (steps (fst (generate rt now self df))) =
           [''schema_validation'', ''data_quality'', ''sla_enforcement'']"
  using assms
  by (simp add: generate_def new_report_def record_schema_validation_def record_data_quality_def
      record_sla_enforcement_def Let_def split: prod.splits)

lemma id_name_present:
  "validate_schema (validation_engine (PipelineGenerator_init id_name_contract)) two_rows"
  by (simp add: validate_schema_def PipelineGenerator_init_def ValidationEngine_init_def
      get_schema_def id_name_contract_def contract_column_names_def two_rows_def)

theorem schema_pass_three_steps_witness:
  "validate_schema (validation_engine (PipelineGenerator_init id_name_contract)) two_rows
   \<and> length (steps (fst (generate test_runtime ''t'' (PipelineGenerator_init id_name_contract) two_rows))) = 3
   \<and> map name (steps (fst (generate test_runtime ''t'' (PipelineGenerator_init id_name_contract) two_rows)))
       = [''schema_validation'', ''data_quality'', ''sla_enforcement'']"
  using schema_pass_three_steps [OF id_name_present, of test_runtime "''t''"] id_name_present
  by simp

section \<open>A failure is kept\<close>

lemma check_min_rows_mono:
  "\<not> sla_passed r \<Longrightarrow> \<not> sla_passed (state_of (check_min_rows rt rules n r))"
  by (simp add: check_min_rows_def state_of_def Let_def split: option.splits sum.splits)

lemma check_max_rows_mono:
  "\<not> sla_passed r \<Longrightarrow> \<not> sla_passed (state_of (check_max_rows rt rules n r))"
  by (simp add: check_max_rows_def state_of_def Let_def split: option.splits sum.splits)

lemma check_completeness_mono:
  "\<not> sla_passed r \<Longrightarrow> \<not> sla_passed (state_of (check_completeness rt rules df n r))"
  by (simp add: check_completeness_def state_of_def Let_def split: option.splits sum.splits)

lemma failed_report_failed: "\<not> success failed_report"
  by (simp add: failed_report_def record_schema_validation_def)

lemma failed_results_failed: "\<not> sla_passed failed_results"
  by (simp add: failed_results_def on_exception_def)

section \<open>The object's own metrics\<close>

lemma enforce_sla_self: "snd (enforce_sla rt now self df) = self"
  by (simp add: enforce_sla_def split: sum.splits prod.splits)

text \<open>
  C9. \<^verbatim>\<open>enforce_sla\<close> never writes \<^verbatim>\<open>self.metrics\<close>: after any sequence of calls on an
  object that \<^verbatim>\<open>__init__\<close> built, \<^verbatim>\<open>get_metrics\<close> returns the empty mapping.
\<close>

theorem get_metrics_stays_empty:
  "get_metrics (enforce_sla_calls rt (SLAEnforcer_init rules) calls) = Map.empty"
proof -
  have "enforce_sla_calls rt self calls = self" for self
    by (induction calls arbitrary: self) (auto simp: enforce_sla_self)
  then show ?thesis
    by (simp add: get_metrics_def SLAEnforcer_init_def)
qed

section \<open>The SLA rules\<close>

subsection \<open>Comparisons and formats of numbers\<close>

lemma num_lt_num_of: "num_of v = Some q \<Longrightarrow> num_lt ty x v = Inr (x < q)"
  by (auto simp: num_of_def num_lt_def split: pyval.splits)

lemma num_gt_num_of: "num_of v = Some q \<Longrightarrow> num_gt ty x v = Inr (x > q)"
  by (auto simp: num_of_def num_gt_def split: pyval.splits)


lemma num_lt_error: "num_lt ty x v = Inl e \<Longrightarrow> e \<noteq> ZeroDivisionError"
  by (auto simp: num_lt_def split: pyval.splits)

lemma num_gt_error: "num_gt ty x v = Inl e \<Longrightarrow> e \<noteq> ZeroDivisionError"
  by (auto simp: num_gt_def split: pyval.splits)

lemma format_pct_error: "format_pct rt v = Inl e \<Longrightarrow> e \<noteq> ZeroDivisionError"
  by (auto simp: format_pct_def split: pyval.splits)

lemma completeness_of_value: "completeness_of rt df (nrows df) = Inr (completeness_value rt df)"
  by (auto simp: completeness_of_def completeness_value_def py_truediv_def Let_def)

lemma completeness_value_zero_cells:
  "nrows df * length (columns df) = 0 \<Longrightarrow> completeness_value rt df = 1"
  by (auto simp: completeness_value_def Let_def)

subsection \<open>The messages differ\<close>

lemma min_message_not_max: "min_rows_message rt n v \<noteq> max_rows_message rt n v'"
  by (simp add: min_rows_message_def max_rows_message_def)

lemma min_message_not_completeness: "min_rows_message rt n v \<noteq> completeness_message c t"
  by (simp add: min_rows_message_def completeness_message_def)

lemma min_message_not_error: "min_rows_message rt n v \<noteq> ''Error enforcing SLA: '' @ s"
  by (simp add: min_rows_message_def)

lemma max_message_not_completeness: "max_rows_message rt n v \<noteq> completeness_message c t"
  by (simp add: max_rows_message_def completeness_message_def)

lemma completeness_message_not_error: "completeness_message c t \<noteq> ''Error enforcing SLA: '' @ s"
  by (simp add: completeness_message_def)

subsection \<open>What one block adds\<close>

lemma check_min_rows_new:
  "x \<in> set (violations (state_of (check_min_rows rt rules n r))) \<Longrightarrow>
     x \<in> set (violations r) \<or> (\<exists>v. rules ''min_rows'' = Some v \<and> x = min_rows_message rt n v)"
  by (auto simp: check_min_rows_def state_of_def Let_def split: option.splits sum.splits if_splits)

lemma check_max_rows_new:
  "x \<in> set (violations (state_of (check_max_rows rt rules n r))) \<Longrightarrow>
     x \<in> set (violations r) \<or> (\<exists>v. rules ''max_rows'' = Some v \<and> x = max_rows_message rt n v)"
  by (auto simp: check_max_rows_def state_of_def split: option.splits sum.splits if_splits)

lemma check_completeness_new:
  "x \<in> set (violations (state_of (check_completeness rt rules df n r))) \<Longrightarrow>
     x \<in> set (violations r)
     \<or> (\<exists>c t. rules ''completeness_threshold'' \<noteq> None \<and> x = completeness_message c t)"
  by (auto simp: check_completeness_def state_of_def Let_def split: option.splits sum.splits if_splits)

lemma check_max_rows_keeps:
  "x \<in> set (violations r) \<Longrightarrow> x \<in> set (violations (state_of (check_max_rows rt rules n r)))"
  by (auto simp: check_max_rows_def state_of_def split: option.splits sum.splits)

lemma check_completeness_keeps:
  "x \<in> set (violations r) \<Longrightarrow> x \<in> set (violations (state_of (check_completeness rt rules df n r)))"
  by (auto simp: check_completeness_def state_of_def Let_def split: option.splits sum.splits)

subsection \<open>The call as a whole\<close>

lemma fst_enforce_sla:
  "fst (enforce_sla rt now self df) =
     (case enforce_sla_body rt (sla_rules self) df (new_results now) of
        Inr r \<Rightarrow> r | Inl (e, r) \<Rightarrow> on_exception rt e r)"
  by (simp add: enforce_sla_def split: sum.splits prod.splits)

text \<open>
  The result of a call is the state after one of the three blocks, with the handler's
  entry after it when that block raised.
\<close>

lemma enforce_sla_cases:
  assumes "r1 = state_of (check_min_rows rt (sla_rules self) (nrows df) (new_results now))"
      and "r2 = state_of (check_max_rows rt (sla_rules self) (nrows df) r1)"
      and "r3 = state_of (check_completeness rt (sla_rules self) df (nrows df) r2)"
  shows "fst (enforce_sla rt now self df) = r3
       \<or> (\<exists>e. fst (enforce_sla rt now self df) = on_exception rt e r1)
       \<or> (\<exists>e. fst (enforce_sla rt now self df) = on_exception rt e r2)
       \<or> (\<exists>e. fst (enforce_sla rt now self df) = on_exception rt e r3)"
  unfolding assms fst_enforce_sla enforce_sla_body_def Let_def state_of_def
  by (auto split: sum.splits)

text \<open>Every entry of the violations is the message of a configured rule or of the handler.\<close>

lemma violations_shapes:
  assumes "x \<in> set (violations (fst (enforce_sla rt now self df)))"
  shows "(\<exists>v. sla_rules self ''min_rows'' = Some v \<and> x = min_rows_message rt (nrows df) v)
       \<or> (\<exists>v. sla_rules self ''max_rows'' = Some v \<and> x = max_rows_message rt (nrows df) v)
       \<or> (\<exists>c t. sla_rules self ''completeness_threshold'' \<noteq> None \<and> x = completeness_message c t)
       \<or> (\<exists>e. x = ''Error enforcing SLA: '' @ str_exc rt e)"
proof -
  define r1 where "r1 = state_of (check_min_rows rt (sla_rules self) (nrows df) (new_results now))"
  define r2 where "r2 = state_of (check_max_rows rt (sla_rules self) (nrows df) r1)"
  define r3 where "r3 = state_of (check_completeness rt (sla_rules self) df (nrows df) r2)"
  let ?A = "\<exists>v. sla_rules self ''min_rows'' = Some v \<and> x = min_rows_message rt (nrows df) v"
  let ?B = "\<exists>v. sla_rules self ''max_rows'' = Some v \<and> x = max_rows_message rt (nrows df) v"
  let ?C = "\<exists>c t. sla_rules self ''completeness_threshold'' \<noteq> None \<and> x = completeness_message c t"
  let ?E = "\<exists>e. x = ''Error enforcing SLA: '' @ str_exc rt e"
  have s1: "x \<in> set (violations r1) \<Longrightarrow> ?A"
    unfolding r1_def
    using check_min_rows_new [of x rt "sla_rules self" "nrows df" "new_results now"]
    by (simp add: new_results_def)
  have s2: "x \<in> set (violations r2) \<Longrightarrow> ?A \<or> ?B"
    unfolding r2_def
    using check_max_rows_new [of x rt "sla_rules self" "nrows df" r1] s1 by blast
  have s3: "x \<in> set (violations r3) \<Longrightarrow> ?A \<or> ?B \<or> ?C"
    unfolding r3_def
    using check_completeness_new [of x rt "sla_rules self" df "nrows df" r2] s2 by blast
  have h: "x \<in> set (violations (on_exception rt e r)) \<Longrightarrow> x \<in> set (violations r) \<or> ?E" for e r
    by (auto simp: on_exception_def)
  from enforce_sla_cases [OF r1_def r2_def r3_def]
  consider "fst (enforce_sla rt now self df) = r3"
    | e where "fst (enforce_sla rt now self df) = on_exception rt e r1"
    | e where "fst (enforce_sla rt now self df) = on_exception rt e r2"
    | e where "fst (enforce_sla rt now self df) = on_exception rt e r3"
    by blast
  then show ?thesis
  proof cases
    case 1
    with assms have "x \<in> set (violations r3)" by simp
    with s3 show ?thesis by blast
  next
    case 2
    with assms have "x \<in> set (violations (on_exception rt e r1))" by simp
    with h [of e r1] s1 show ?thesis by blast
  next
    case 3
    with assms have "x \<in> set (violations (on_exception rt e r2))" by simp
    with h [of e r2] s2 show ?thesis by blast
  next
    case 4
    with assms have "x \<in> set (violations (on_exception rt e r3))" by simp
    with h [of e r3] s3 show ?thesis by blast
  qed
qed

subsection \<open>Blocks under numeric rules\<close>

lemma check_min_rows_numeric:
  assumes "numeric_rule rules ''min_rows''"
  shows "\<exists>r'. check_min_rows rt rules (nrows df) r = Inr r'
           \<and> sla_passed r' = (sla_passed r \<and> min_rows_violation rt rules df = [])
           \<and> violations r' = violations r @ min_rows_violation rt rules df"
proof (cases "rules ''min_rows''")
  case None
  then show ?thesis
    by (simp add: check_min_rows_def min_rows_violation_def)
next
  case (Some v)
  with assms obtain m where m: "num_of v = Some m"
    by (auto simp: numeric_rule_def)
  show ?thesis
    using Some m by (simp add: check_min_rows_def min_rows_violation_def num_lt_num_of Let_def)
qed

lemma check_max_rows_numeric:
  assumes "numeric_rule rules ''max_rows''"
  shows "\<exists>r'. check_max_rows rt rules (nrows df) r = Inr r'
           \<and> sla_passed r' = (sla_passed r \<and> max_rows_violation rt rules df = [])
           \<and> violations r' = violations r @ max_rows_violation rt rules df"
proof (cases "rules ''max_rows''")
  case None
  then show ?thesis
    by (simp add: check_max_rows_def max_rows_violation_def)
next
  case (Some v)
  with assms obtain m where m: "num_of v = Some m"
    by (auto simp: numeric_rule_def)
  show ?thesis
    using Some m by (simp add: check_max_rows_def max_rows_violation_def num_gt_num_of)
qed


subsection \<open>Blocks read their own rule and the verdict only\<close>

lemma check_min_rows_rules_cong:
  "rules ''min_rows'' = rules' ''min_rows'' \<Longrightarrow>
     check_min_rows rt rules n r = check_min_rows rt rules' n r"
  by (simp add: check_min_rows_def)

lemma check_max_rows_rules_cong:
  "rules ''max_rows'' = rules' ''max_rows'' \<Longrightarrow>
     check_max_rows rt rules n r = check_max_rows rt rules' n r"
  by (simp add: check_max_rows_def)

lemma check_max_rows_cong:
  assumes "rules ''max_rows'' = rules' ''max_rows''" and "same_verdict r r'"
  shows "rel_sum (rel_prod (=) same_verdict) same_verdict
           (check_max_rows rt rules n r) (check_max_rows rt rules' n r')"
  using assms
  by (auto simp: check_max_rows_def same_verdict_def split: option.splits sum.splits)

lemma check_completeness_cong:
  assumes "rules ''completeness_threshold'' = rules' ''completeness_threshold''"
      and "same_verdict r r'"
  shows "rel_sum (rel_prod (=) same_verdict) same_verdict
           (check_completeness rt rules df n r) (check_completeness rt rules' df n r')"
  using assms
  by (auto simp: check_completeness_def same_verdict_def Let_def split: option.splits sum.splits)

lemma rest_cong:
  assumes "rules ''max_rows'' = rules' ''max_rows''"
      and "rules ''completeness_threshold'' = rules' ''completeness_threshold''"
      and "same_verdict r r'"
  shows "rel_sum (rel_prod (=) same_verdict) same_verdict
           (case check_max_rows rt rules n r of Inl x \<Rightarrow> Inl x
            | Inr r2 \<Rightarrow> check_completeness rt rules df n r2)
           (case check_max_rows rt rules' n r' of Inl x \<Rightarrow> Inl x
            | Inr r2 \<Rightarrow> check_completeness rt rules' df n r2)"
proof -
  have m: "rel_sum (rel_prod (=) same_verdict) same_verdict
           (check_max_rows rt rules n r) (check_max_rows rt rules' n r')"
    using check_max_rows_cong [where rules = rules and rules' = rules' and r = r and r' = r'
        and rt = rt and n = n] assms(1) assms(3)
    by blast
  show ?thesis
  proof (cases "check_max_rows rt rules n r")
    case (Inl a)
    with m show ?thesis by (cases "check_max_rows rt rules' n r'") auto
  next
    case (Inr b)
    with m obtain b' where b': "check_max_rows rt rules' n r' = Inr b'" "same_verdict b b'"
      by (cases "check_max_rows rt rules' n r'") auto
    show ?thesis
      using check_completeness_cong [where rules = rules and rules' = rules' and r = b
          and r' = b' and rt = rt and df = df and n = n] assms(2) b'(2)
      by (simp add: Inr b'(1))
  qed
qed

lemma finish_cong:
  assumes "rel_sum (rel_prod (=) same_verdict) same_verdict x y"
  shows "same_verdict (case x of Inr r \<Rightarrow> r | Inl (e, r) \<Rightarrow> on_exception rt e r)
                      (case y of Inr r \<Rightarrow> r | Inl (e, r) \<Rightarrow> on_exception rt e r)"
  using assms
  by (cases x; cases y) (auto simp: same_verdict_def on_exception_def)

subsection \<open>The min_rows rule\<close>

lemma satisfied_min_rows:
  assumes "sla_rules self ''min_rows'' = Some v" and "num_of v = Some m"
      and "m \<le> of_nat (nrows df)"
  shows "same_verdict (fst (enforce_sla rt now self df))
           (fst (enforce_sla rt now (self\<lparr>sla_rules := (sla_rules self)(''min_rows'' := None)\<rparr>) df))"
proof -
  let ?rules = "sla_rules self"
  let ?rules' = "(sla_rules self)(''min_rows'' := None)"
  let ?r1 = "(new_results now)\<lparr>metrics :=
               (metrics (new_results now))(''row_count'' \<mapsto> PInt (int (nrows df)))\<rparr>"
  have 1: "check_min_rows rt ?rules (nrows df) (new_results now) = Inr ?r1"
    using assms by (simp add: check_min_rows_def num_lt_num_of Let_def)
  have 2: "check_min_rows rt ?rules' (nrows df) (new_results now) = Inr (new_results now)"
    by (simp add: check_min_rows_def)
  have sv: "same_verdict ?r1 (new_results now)"
    by (simp add: same_verdict_def)
  have "rel_sum (rel_prod (=) same_verdict) same_verdict
          (enforce_sla_body rt ?rules df (new_results now))
          (enforce_sla_body rt ?rules' df (new_results now))"
    unfolding enforce_sla_body_def Let_def 1 2 sum.case
    using rest_cong [where rules = ?rules and rules' = ?rules' and r = ?r1
        and r' = "new_results now" and rt = rt and n = "nrows df" and df = df] sv
    by simp
  then show ?thesis
    unfolding fst_enforce_sla by (simp add: finish_cong)
qed

lemma violated_min_rows:
  assumes "sla_rules self ''min_rows'' = Some v" and "num_of v = Some m"
      and "of_nat (nrows df) < m"
  shows "\<not> sla_passed (fst (enforce_sla rt now self df))
       \<and> min_rows_message rt (nrows df) v \<in> set (violations (fst (enforce_sla rt now self df)))"
proof -
  let ?msg = "min_rows_message rt (nrows df) v"
  define r1 where "r1 = state_of (check_min_rows rt (sla_rules self) (nrows df) (new_results now))"
  define r2 where "r2 = state_of (check_max_rows rt (sla_rules self) (nrows df) r1)"
  define r3 where "r3 = state_of (check_completeness rt (sla_rules self) df (nrows df) r2)"
  have 1: "\<not> sla_passed r1 \<and> ?msg \<in> set (violations r1)"
    unfolding r1_def using assms
    by (simp add: check_min_rows_def num_lt_num_of state_of_def Let_def)
  then have 2: "\<not> sla_passed r2 \<and> ?msg \<in> set (violations r2)"
    unfolding r2_def by (simp add: check_max_rows_mono check_max_rows_keeps)
  then have 3: "\<not> sla_passed r3 \<and> ?msg \<in> set (violations r3)"
    unfolding r3_def by (simp add: check_completeness_mono check_completeness_keeps)
  have h: "\<not> sla_passed r \<and> ?msg \<in> set (violations r) \<Longrightarrow>
      \<not> sla_passed (on_exception rt e r) \<and> ?msg \<in> set (violations (on_exception rt e r))" for e r
    by (simp add: on_exception_def)
  from enforce_sla_cases [OF r1_def r2_def r3_def] 1 2 3 h show ?thesis
    by metis
qed

lemma no_min_message_without_rule:
  assumes "sla_rules self ''min_rows'' = None"
  shows "min_rows_message rt (nrows df) v \<notin> set (violations (fst (enforce_sla rt now self df)))"
proof
  assume "min_rows_message rt (nrows df) v \<in> set (violations (fst (enforce_sla rt now self df)))"
  from violations_shapes [OF this] assms show False
    using min_message_not_max min_message_not_completeness min_message_not_error
    by (metis option.distinct(1))
qed

lemma str_int_2: "str_int 2 = ''2''" by code_simp
lemma str_int_100: "str_int 100 = ''100''" by code_simp

text \<open>
  C5. With \<^verbatim>\<open>min_rows = m\<close> configured and a frame of \<open>n\<close> rows: when \<open>n < m\<close> the result
  has \<^verbatim>\<open>sla_passed\<close> false and its violations hold the message
  \<^verbatim>\<open>Row count n is less than minimum m\<close>, whatever the other rules are; when \<open>n \<ge> m\<close> the
  message is absent, and the verdict and the violations are those of the same rule set
  without \<^verbatim>\<open>min_rows\<close>, so the rule alone does not clear \<^verbatim>\<open>sla_passed\<close>.
\<close>

theorem min_rows_rule:
  assumes "sla_rules self ''min_rows'' = Some (PInt m)"
  shows "(int (nrows df) < m \<longrightarrow>
            \<not> sla_passed (fst (enforce_sla rt now self df))
            \<and> ''Row count '' @ str_int (int (nrows df)) @ '' is less than minimum '' @ str_int m
                \<in> set (violations (fst (enforce_sla rt now self df))))
       \<and> (m \<le> int (nrows df) \<longrightarrow>
            ''Row count '' @ str_int (int (nrows df)) @ '' is less than minimum '' @ str_int m
                \<notin> set (violations (fst (enforce_sla rt now self df)))
            \<and> sla_passed (fst (enforce_sla rt now self df)) =
                sla_passed (fst (enforce_sla rt now
                  (self\<lparr>sla_rules := (sla_rules self)(''min_rows'' := None)\<rparr>) df))
            \<and> violations (fst (enforce_sla rt now self df)) =
                violations (fst (enforce_sla rt now
                  (self\<lparr>sla_rules := (sla_rules self)(''min_rows'' := None)\<rparr>) df)))"
proof -
  let ?msg = "''Row count '' @ str_int (int (nrows df)) @ '' is less than minimum '' @ str_int m"
  let ?self' = "self\<lparr>sla_rules := (sla_rules self)(''min_rows'' := None)\<rparr>"
  have msg: "min_rows_message rt (nrows df) (PInt m) = ?msg"
    by (simp add: min_rows_message_def str_val_def)
  have num: "num_of (PInt m) = Some (of_int m)"
    by (simp add: num_of_def)
  have low: "\<not> sla_passed (fst (enforce_sla rt now self df))
       \<and> ?msg \<in> set (violations (fst (enforce_sla rt now self df)))" if "int (nrows df) < m"
  proof -
    from that have "(of_nat (nrows df) :: rat) < of_int m"
      by (metis of_int_less_iff of_int_of_nat_eq)
    from violated_min_rows [OF assms num this, of rt now] show ?thesis
      unfolding msg .
  qed
  have high: "?msg \<notin> set (violations (fst (enforce_sla rt now self df)))
       \<and> sla_passed (fst (enforce_sla rt now self df)) = sla_passed (fst (enforce_sla rt now ?self' df))
       \<and> violations (fst (enforce_sla rt now self df)) = violations (fst (enforce_sla rt now ?self' df))"
    if "m \<le> int (nrows df)"
  proof -
    from that have "(of_int m :: rat) \<le> of_nat (nrows df)"
      by (metis of_int_le_iff of_int_of_nat_eq)
    from satisfied_min_rows [OF assms num this, of rt now]
    have sv: "same_verdict (fst (enforce_sla rt now self df)) (fst (enforce_sla rt now ?self' df))" .
    have "sla_rules ?self' ''min_rows'' = None" by simp
    from no_min_message_without_rule [OF this, of rt df "PInt m" now]
    have "?msg \<notin> set (violations (fst (enforce_sla rt now ?self' df)))"
      unfolding msg .
    with sv show ?thesis
      by (simp add: same_verdict_def)
  qed
  from low high show ?thesis by blast
qed

theorem min_rows_rule_witness:
  "\<not> sla_passed (fst (enforce_sla test_runtime ''t'' (SLAEnforcer_init [''min_rows'' \<mapsto> PInt 100]) two_rows))
   \<and> ''Row count 2 is less than minimum 100''
       \<in> set (violations (fst (enforce_sla test_runtime ''t'' (SLAEnforcer_init [''min_rows'' \<mapsto> PInt 100]) two_rows)))
   \<and> ''Row count 2 is less than minimum 2''
       \<notin> set (violations (fst (enforce_sla test_runtime ''t''
            (SLAEnforcer_init [''min_rows'' \<mapsto> PInt 2, ''max_rows'' \<mapsto> PInt 1]) two_rows)))
   \<and> violations (fst (enforce_sla test_runtime ''t''
            (SLAEnforcer_init [''min_rows'' \<mapsto> PInt 2, ''max_rows'' \<mapsto> PInt 1]) two_rows))
       = violations (fst (enforce_sla test_runtime ''t''
            ((SLAEnforcer_init [''min_rows'' \<mapsto> PInt 2, ''max_rows'' \<mapsto> PInt 1])
               \<lparr>sla_rules := [''min_rows'' \<mapsto> PInt 2, ''max_rows'' \<mapsto> PInt 1](''min_rows'' := None)\<rparr>) two_rows))"
  using min_rows_rule [of "SLAEnforcer_init [''min_rows'' \<mapsto> PInt 100]" 100 two_rows test_runtime "''t''"]
    min_rows_rule [of "SLAEnforcer_init [''min_rows'' \<mapsto> PInt 2, ''max_rows'' \<mapsto> PInt 1]" 2 two_rows
      test_runtime "''t''"]
  apply (simp (no_asm_use) add: SLAEnforcer_init_def two_rows_def str_int_2 str_int_100)
  apply blast
  done



lemma test_runtime_texts:
  "format_percent test_runtime q = ''<percent>''" "str_exc test_runtime e = ''<exception>''"
  by (simp_all add: test_runtime_def)





subsection \<open>A frame without cells\<close>

lemma completeness_of_zero_cells:
  "nrows df * length (columns df) = 0 \<Longrightarrow> completeness_of rt df (nrows df) = Inr 1"
  by (simp add: completeness_of_value completeness_value_zero_cells)

lemma check_completeness_zero_cells_metric:
  assumes "nrows df * length (columns df) = 0" and "rules ''completeness_threshold'' = Some t"
  shows "metrics (state_of (check_completeness rt rules df (nrows df) r)) ''completeness'' =
           Some (PFloat 1)"
  using assms
  by (auto simp: check_completeness_def completeness_of_zero_cells state_of_def Let_def
      split: sum.splits)

lemma check_completeness_zero_cells_verdict:
  assumes "nrows df * length (columns df) = 0" and "rules ''completeness_threshold'' = Some t"
      and "num_of t = Some q" and "q \<le> 1"
  shows "\<exists>r'. check_completeness rt rules df (nrows df) r = Inr r' \<and> same_verdict r' r"
  using assms
  by (simp add: check_completeness_def completeness_of_zero_cells num_lt_num_of same_verdict_def
      Let_def)

lemma check_min_rows_error:
  "check_min_rows rt rules n r = Inl (e, r') \<Longrightarrow> e \<noteq> ZeroDivisionError"
  by (auto simp: check_min_rows_def Let_def dest: num_lt_error
      split: option.splits sum.splits if_splits)

lemma check_max_rows_error:
  "check_max_rows rt rules n r = Inl (e, r') \<Longrightarrow> e \<noteq> ZeroDivisionError"
  by (auto simp: check_max_rows_def dest: num_gt_error split: option.splits sum.splits if_splits)

lemma completeness_of_total: "\<exists>c. completeness_of rt df n = Inr c"
  by (simp add: completeness_of_def py_truediv_def Let_def)

lemma check_completeness_error:
  assumes "check_completeness rt rules df n r = Inl (e, r')"
  shows "e \<noteq> ZeroDivisionError"
proof -
  obtain c where c: "completeness_of rt df n = Inr c"
    using completeness_of_total by blast
  show ?thesis
    using assms
    by (auto simp: check_completeness_def c Let_def dest: num_lt_error format_pct_error
        split: option.splits sum.splits if_splits)
qed

lemma no_zero_division:
  "enforce_sla_body rt rules df r \<noteq> Inl (ZeroDivisionError, r')"
proof
  assume a: "enforce_sla_body rt rules df r = Inl (ZeroDivisionError, r')"
  show False
  proof (cases "check_min_rows rt rules (nrows df) r")
    case (Inl x)
    with a show False
      using check_min_rows_error [of rt rules "nrows df" r ZeroDivisionError r']
      by (simp add: enforce_sla_body_def Let_def)
  next
    case r1: (Inr r1)
    show False
    proof (cases "check_max_rows rt rules (nrows df) r1")
      case (Inl x)
      with a r1 show False
        using check_max_rows_error [of rt rules "nrows df" r1 ZeroDivisionError r']
        by (simp add: enforce_sla_body_def Let_def)
    next
      case (Inr r2)
      with a r1 show False
        using check_completeness_error [of rt rules df "nrows df" r2 ZeroDivisionError r']
        by (simp add: enforce_sla_body_def Let_def)
    qed
  qed
qed

lemma metrics_on_exception: "metrics (on_exception rt e r) = metrics r"
  by (simp add: on_exception_def)

lemma zero_cells_metric:
  assumes "nrows df * length (columns df) = 0"
      and "sla_rules self ''completeness_threshold'' = Some t"
      and "numeric_rule (sla_rules self) ''min_rows''"
      and "numeric_rule (sla_rules self) ''max_rows''"
  shows "metrics (fst (enforce_sla rt now self df)) ''completeness'' = Some (PFloat 1)"
proof -
  obtain r1 where 1: "check_min_rows rt (sla_rules self) (nrows df) (new_results now) = Inr r1"
    using check_min_rows_numeric [OF assms(3), of rt df "new_results now"] by blast
  obtain r2 where 2: "check_max_rows rt (sla_rules self) (nrows df) r1 = Inr r2"
    using check_max_rows_numeric [OF assms(4), of rt df r1] by blast
  have "enforce_sla_body rt (sla_rules self) df (new_results now) =
          check_completeness rt (sla_rules self) df (nrows df) r2"
    by (simp add: enforce_sla_body_def Let_def 1 2)
  then have "metrics (fst (enforce_sla rt now self df)) =
          metrics (state_of (check_completeness rt (sla_rules self) df (nrows df) r2))"
    by (simp add: fst_enforce_sla state_of_def metrics_on_exception split: sum.splits)
  then show ?thesis
    using check_completeness_zero_cells_metric [where rules = "sla_rules self" and df = df
        and t = t and rt = rt and r = r2] assms(1) assms(2)
    by simp
qed

lemma zero_cells_verdict:
  assumes "nrows df * length (columns df) = 0"
      and "sla_rules self ''completeness_threshold'' = Some t"
      and "num_of t = Some q" and "q \<le> 1"
  shows "same_verdict (fst (enforce_sla rt now self df))
           (fst (enforce_sla rt now
              (self\<lparr>sla_rules := (sla_rules self)(''completeness_threshold'' := None)\<rparr>) df))"
proof -
  let ?rules = "sla_rules self"
  let ?rules' = "(sla_rules self)(''completeness_threshold'' := None)"
  have min: "check_min_rows rt ?rules' (nrows df) (new_results now) =
      check_min_rows rt ?rules (nrows df) (new_results now)"
    by (rule check_min_rows_rules_cong) simp
  have max: "check_max_rows rt ?rules' (nrows df) r = check_max_rows rt ?rules (nrows df) r" for r
    by (rule check_max_rows_rules_cong) simp
  have c': "check_completeness rt ?rules' df (nrows df) r = Inr r" for r
    by (simp add: check_completeness_def)
  have c: "\<exists>r'. check_completeness rt ?rules df (nrows df) r = Inr r' \<and> same_verdict r' r" for r
    using check_completeness_zero_cells_verdict [where rules = ?rules and df = df and t = t
        and q = q and rt = rt and r = r] assms
    by blast
  show ?thesis
  proof (cases "check_min_rows rt ?rules (nrows df) (new_results now)")
    case (Inl x)
    then show ?thesis
      by (simp add: fst_enforce_sla enforce_sla_body_def Let_def min same_verdict_def)
  next
    case r1: (Inr r1)
    show ?thesis
    proof (cases "check_max_rows rt ?rules (nrows df) r1")
      case (Inl x)
      then show ?thesis
        by (simp add: fst_enforce_sla enforce_sla_body_def Let_def min max r1 same_verdict_def)
    next
      case r2: (Inr r2)
      from c [of r2] obtain r3 where "check_completeness rt ?rules df (nrows df) r2 = Inr r3"
        and "same_verdict r3 r2" by blast
      then show ?thesis
        by (simp add: fst_enforce_sla enforce_sla_body_def Let_def min max r1 r2 c')
    qed
  qed
qed

lemma no_completeness_message_without_rule:
  assumes "sla_rules self ''completeness_threshold'' = None"
  shows "completeness_message c t \<notin> set (violations (fst (enforce_sla rt now self df)))"
proof
  assume "completeness_message c t \<in> set (violations (fst (enforce_sla rt now self df)))"
  from violations_shapes [OF this] assms show False
    using min_message_not_completeness max_message_not_completeness completeness_message_not_error
    by metis
qed

text \<open>
  C4, as amended. For a frame with no cells and a configured completeness threshold,
  when \<^verbatim>\<open>min_rows\<close> and \<^verbatim>\<open>max_rows\<close> are absent or numbers: \<^verbatim>\<open>enforce_sla\<close> records
  \<^verbatim>\<open>metrics.completeness = 1.0\<close>; the body raises no division error; and for a threshold
  that is a number at most 1 the violations hold no completeness message, the verdict and
  the violations being those of the same rule set without the threshold.
\<close>

theorem zero_cells_completeness:
  assumes "nrows df * length (columns df) = 0"
      and "sla_rules self ''completeness_threshold'' = Some t"
      and "numeric_rule (sla_rules self) ''min_rows''"
      and "numeric_rule (sla_rules self) ''max_rows''"
  shows "metrics (fst (enforce_sla rt now self df)) ''completeness'' = Some (PFloat 1)
       \<and> (\<forall>r. enforce_sla_body rt (sla_rules self) df (new_results now) \<noteq> Inl (ZeroDivisionError, r))
       \<and> (num_of t = Some q \<and> q \<le> 1 \<longrightarrow>
            (\<forall>c t'. completeness_message c t' \<notin> set (violations (fst (enforce_sla rt now self df))))
            \<and> sla_passed (fst (enforce_sla rt now self df)) =
                sla_passed (fst (enforce_sla rt now
                  (self\<lparr>sla_rules := (sla_rules self)(''completeness_threshold'' := None)\<rparr>) df))
            \<and> violations (fst (enforce_sla rt now self df)) =
                violations (fst (enforce_sla rt now
                  (self\<lparr>sla_rules := (sla_rules self)(''completeness_threshold'' := None)\<rparr>) df)))"
proof -
  let ?self' = "self\<lparr>sla_rules := (sla_rules self)(''completeness_threshold'' := None)\<rparr>"
  have a: "metrics (fst (enforce_sla rt now self df)) ''completeness'' = Some (PFloat 1)"
    by (rule zero_cells_metric [OF assms])
  have b: "\<forall>r. enforce_sla_body rt (sla_rules self) df (new_results now) \<noteq> Inl (ZeroDivisionError, r)"
    by (simp add: no_zero_division)
  have c: "(\<forall>c t'. completeness_message c t' \<notin> set (violations (fst (enforce_sla rt now self df))))
       \<and> sla_passed (fst (enforce_sla rt now self df)) = sla_passed (fst (enforce_sla rt now ?self' df))
       \<and> violations (fst (enforce_sla rt now self df)) = violations (fst (enforce_sla rt now ?self' df))"
    if "num_of t = Some q" and "q \<le> 1"
  proof -
    from zero_cells_verdict [OF assms(1) assms(2) that, of rt now]
    have sv: "same_verdict (fst (enforce_sla rt now self df)) (fst (enforce_sla rt now ?self' df))" .
    have "sla_rules ?self' ''completeness_threshold'' = None" by simp
    from no_completeness_message_without_rule [OF this]
    have "completeness_message c t' \<notin> set (violations (fst (enforce_sla rt now ?self' df)))" for c t' .
    with sv show ?thesis
      by (simp add: same_verdict_def)
  qed
  from a b c show ?thesis by blast
qed

theorem zero_cells_completeness_witness:
  "nrows no_rows * length (columns no_rows) = 0
   \<and> sla_rules (SLAEnforcer_init lenient_rules) ''completeness_threshold'' = Some (PFloat (19 / 20))
   \<and> numeric_rule (sla_rules (SLAEnforcer_init lenient_rules)) ''min_rows''
   \<and> numeric_rule (sla_rules (SLAEnforcer_init lenient_rules)) ''max_rows''
   \<and> num_of (PFloat (19 / 20)) = Some (19 / 20) \<and> (19 / 20 :: rat) \<le> 1
   \<and> metrics (fst (enforce_sla test_runtime ''t'' (SLAEnforcer_init lenient_rules) no_rows))
        ''completeness'' = Some (PFloat 1)
   \<and> ''Completeness <percent> is below threshold <percent>''
        \<notin> set (violations (fst (enforce_sla test_runtime ''t'' (SLAEnforcer_init lenient_rules) no_rows)))"
proof -
  have h1: "nrows no_rows * length (columns no_rows) = 0"
    by (simp add: no_rows_def)
  have h2: "sla_rules (SLAEnforcer_init lenient_rules) ''completeness_threshold'' = Some (PFloat (19 / 20))"
    by (simp add: SLAEnforcer_init_def lenient_rules_def)
  have h3: "numeric_rule (sla_rules (SLAEnforcer_init lenient_rules)) ''min_rows''"
    by (simp add: numeric_rule_def SLAEnforcer_init_def lenient_rules_def num_of_def)
  have h4: "numeric_rule (sla_rules (SLAEnforcer_init lenient_rules)) ''max_rows''"
    by (simp add: numeric_rule_def SLAEnforcer_init_def lenient_rules_def)
  have h5: "num_of (PFloat (19 / 20)) = Some (19 / 20) \<and> (19 / 20 :: rat) \<le> 1"
    by (simp add: num_of_def)
  have m: "completeness_message ''<percent>'' ''<percent>'' =
      ''Completeness <percent> is below threshold <percent>''"
    by (simp add: completeness_message_def)
  from zero_cells_completeness [OF h1 h2 h3 h4, of test_runtime "''t''" "19 / 20"] h5
  have "metrics (fst (enforce_sla test_runtime ''t'' (SLAEnforcer_init lenient_rules) no_rows))
          ''completeness'' = Some (PFloat 1)"
    and "completeness_message ''<percent>'' ''<percent>''
          \<notin> set (violations (fst (enforce_sla test_runtime ''t'' (SLAEnforcer_init lenient_rules) no_rows)))"
    by blast+
  with h1 h2 h3 h4 h5 show ?thesis
    unfolding m by blast
qed

text \<open>
  C4 as stated fails. On a frame without rows, with a completeness threshold of 0.5 and
  \<^verbatim>\<open>min_rows = "ten"\<close>, the comparison of the row count raises before the completeness
  block, and the result has no completeness metric.
\<close>

theorem malformed_min_rows_hides_completeness:
  "nrows no_rows * length (columns no_rows) = 0
   \<and> sla_rules (SLAEnforcer_init malformed_min_rules) ''completeness_threshold'' = Some (PFloat (1 / 2))
   \<and> metrics (fst (enforce_sla test_runtime ''t'' (SLAEnforcer_init malformed_min_rules) no_rows))
        ''completeness'' = None
   \<and> violations (fst (enforce_sla test_runtime ''t'' (SLAEnforcer_init malformed_min_rules) no_rows))
        = [''Error enforcing SLA: <exception>'']"
  by (simp add: enforce_sla_def enforce_sla_body_def check_min_rows_def SLAEnforcer_init_def
      malformed_min_rules_def no_rows_def new_results_def num_lt_def on_exception_def
      test_runtime_texts Let_def)

text \<open>
  C7 at the failing input. With \<^verbatim>\<open>max_rows = 10\<close> alone on a frame of two rows the metrics
  of the result are empty: only the \<^verbatim>\<open>min_rows\<close> block records \<^verbatim>\<open>row_count\<close>.
\<close>

theorem max_rows_alone_records_no_row_count:
  "sla_rules (SLAEnforcer_init [''max_rows'' \<mapsto> PInt 10]) ''max_rows'' = Some (PInt 10)
   \<and> fst (enforce_sla test_runtime ''t'' (SLAEnforcer_init [''max_rows'' \<mapsto> PInt 10]) two_rows) =
       \<lparr>timestamp = ''t'', sla_passed = True, violations = [], metrics = Map.empty\<rparr>
   \<and> metrics (fst (enforce_sla test_runtime ''t'' (SLAEnforcer_init [''max_rows'' \<mapsto> PInt 10]) two_rows))
        ''row_count'' = None"
  by (simp add: enforce_sla_def enforce_sla_body_def check_min_rows_def check_max_rows_def
      check_completeness_def SLAEnforcer_init_def two_rows_def new_results_def num_gt_def Let_def)

section \<open>The constraint checker\<close>

lemma check_constraint_unrecognized: "\<not> recognized c \<Longrightarrow> check_constraint df c = Inr True"
  by (simp add: recognized_def check_constraint_def Let_def)

lemma check_constraints_filter:
  "check_constraints df cs = check_constraints df (filter recognized cs)"
  by (induction cs) (auto simp: check_constraint_unrecognized split: sum.splits)

lemma check_constraints_unrecognized:
  "\<forall>c \<in> set cs. \<not> recognized c \<Longrightarrow> check_constraints df cs = Inr True"
  by (induction cs) (simp_all add: check_constraint_unrecognized)

text \<open>
  C10. A constraint whose type is none of \<^verbatim>\<open>not_null\<close>, \<^verbatim>\<open>min_value\<close>, \<^verbatim>\<open>max_value\<close> (a
  missing type reads as None) is skipped: \<^verbatim>\<open>validate_constraints\<close> returns what it returns
  on the list without such constraints, and a list of such constraints only validates
  true on every dataset.
\<close>

theorem unrecognized_constraints_skipped:
  "validate_constraints self df cs = validate_constraints self df (filter recognized cs)
   \<and> ((\<forall>c \<in> set cs. \<not> recognized c) \<longrightarrow> validate_constraints self df cs)"
  using check_constraints_filter [of df cs] check_constraints_unrecognized [of cs df]
  by (auto simp: validate_constraints_def)

lemma unknown_constraints_unrecognized: "\<forall>c \<in> set unknown_constraints. \<not> recognized c"
  by (simp add: unknown_constraints_def recognized_def dict_get_def)

theorem unrecognized_constraints_skipped_witness:
  "filter recognized unknown_constraints = []
   \<and> validate_constraints (ValidationEngine_init Map.empty) two_rows unknown_constraints"
proof -
  have "filter recognized unknown_constraints = []"
    using unknown_constraints_unrecognized by (simp add: filter_empty_conv)
  moreover have "validate_constraints (ValidationEngine_init Map.empty) two_rows unknown_constraints"
    using unrecognized_constraints_skipped
      [of "ValidationEngine_init Map.empty" two_rows unknown_constraints]
      unknown_constraints_unrecognized
    by blast
  ultimately show ?thesis by blast
qed

subsection \<open>Bounds\<close>

lemma float64_of_int_small: "\<bar>k\<bar> \<le> 2 ^ 53 \<Longrightarrow> float64_of_int k = of_int k"
  by (auto simp: float64_of_int_def float64_of_nat_def nat_le_iff)

lemma bit_length_bounds: "2 ^ k \<le> n \<Longrightarrow> n < 2 ^ Suc k \<Longrightarrow> bit_length n = Suc k"
proof (induction k arbitrary: n)
  case 0
  then have "n = 1" by simp
  then show ?case
    by (simp add: bit_length.simps [of "Suc 0"] bit_length.simps [of 0])
next
  case (Suc k)
  from Suc.prems have "2 ^ k \<le> n div 2" "n div 2 < 2 ^ Suc k" and "n \<noteq> 0"
    by auto
  with Suc.IH [of "n div 2"] show ?case
    by (simp add: bit_length.simps [of n])
qed

lemma bit_length_big: "bit_length 9007199254740993 = 54"
  using bit_length_bounds [of 53 9007199254740993] by simp

lemma float64_of_nat_big: "float64_of_nat 9007199254740993 = 9007199254740992"
  by (simp add: float64_of_nat_def bit_length_big Let_def)

lemma float64_of_int_big: "float64_of_int 9007199254740993 = 9007199254740992"
  by (simp add: float64_of_int_def float64_of_nat_big)

lemma is_int64_ints: "is_int64 xs \<Longrightarrow> ints xs \<noteq> []"
  by (auto simp: is_int64_def)

lemma series_min_int64:
  assumes "strs xs = []" and "is_int64 xs"
  shows "series_min xs = Inr (Int64 (Min (set (ints xs))))"
proof -
  from is_int64_ints [OF assms(2)] obtain i rest where r: "ints xs = i # rest"
    by (cases "ints xs") auto
  have "fold min rest i = Min (set (i # rest))"
    by (rule Min.set_eq_fold [symmetric])
  with r assms show ?thesis
    by (simp add: series_min_def)
qed

lemma series_min_float64:
  assumes "strs xs = []" and "\<not> is_int64 xs" and "floats xs \<noteq> []"
  shows "series_min xs = Inr (Num (Min (set (floats xs))))"
proof -
  from assms(3) obtain r rest where r: "floats xs = r # rest"
    by (cases "floats xs") auto
  have "fold min rest r = Min (set (r # rest))"
    by (rule Min.set_eq_fold [symmetric])
  with r assms show ?thesis
    by (simp add: series_min_def)
qed

lemma series_max_int64:
  assumes "strs xs = []" and "is_int64 xs"
  shows "series_max xs = Inr (Int64 (Max (set (ints xs))))"
proof -
  from is_int64_ints [OF assms(2)] obtain i rest where r: "ints xs = i # rest"
    by (cases "ints xs") auto
  have "fold max rest i = Max (set (i # rest))"
    by (rule Max.set_eq_fold [symmetric])
  with r assms show ?thesis
    by (simp add: series_max_def)
qed

lemma series_max_float64:
  assumes "strs xs = []" and "\<not> is_int64 xs" and "floats xs \<noteq> []"
  shows "series_max xs = Inr (Num (Max (set (floats xs))))"
proof -
  from assms(3) obtain r rest where r: "floats xs = r # rest"
    by (cases "floats xs") auto
  have "fold max rest r = Max (set (r # rest))"
    by (rule Max.set_eq_fold [symmetric])
  with r assms show ?thesis
    by (simp add: series_max_def)
qed

text \<open>What the two checks return on one column, in terms of the comparison of numpy.\<close>

lemma min_value_check:
  assumes "getitem df label = Inr (Series xs)" and "series_min xs = Inr m" and "cell_lt m v = Inr b"
  shows "validate_constraints self df [bound_constraint ''min_value'' label v] = (\<not> b)"
  using assms
  by (simp add: validate_constraints_def check_constraint_def bound_constraint_def dict_get_def
      getitem_val_def Let_def)

lemma max_value_check:
  assumes "getitem df label = Inr (Series xs)" and "series_max xs = Inr m" and "cell_gt m v = Inr b"
  shows "validate_constraints self df [bound_constraint ''max_value'' label v] = (\<not> b)"
  using assms
  by (simp add: validate_constraints_def check_constraint_def bound_constraint_def dict_get_def
      getitem_val_def Let_def)

lemma cell_lt_exact:
  assumes "numeric_column xs" and "num_of v = Some q" and "exact_comparison xs v"
  shows "\<exists>m. series_min xs = Inr m \<and> cell_lt m v = Inr (column_min xs < q)"
proof (cases "is_int64 xs")
  case True
  with assms(1) have m: "series_min xs = Inr (Int64 (Min (set (ints xs))))"
    by (simp add: series_min_int64 numeric_column_def)
  have mem: "Min (set (ints xs)) \<in> set (ints xs)"
    using is_int64_ints [OF True] by (intro Min_in) auto
  show ?thesis
  proof (cases v)
    case (PInt k)
    with assms(2) True show ?thesis
      by (auto simp: m cell_lt_def column_min_def num_of_def)
  next
    case (PFloat r)
    with assms(3) True mem have "\<bar>Min (set (ints xs))\<bar> \<le> 2 ^ 53"
      by (auto simp: exact_comparison_def list_all_iff)
    with PFloat assms(2) True show ?thesis
      by (simp add: m cell_lt_def column_min_def num_of_def float64_of_int_small)
  qed (use assms(2) in \<open>simp_all add: num_of_def\<close>)
next
  case False
  with assms(1) have m: "series_min xs = Inr (Num (Min (set (floats xs))))"
    by (simp add: series_min_float64 numeric_column_def)
  show ?thesis
  proof (cases v)
    case (PInt k)
    with assms(3) False have "\<bar>k\<bar> \<le> 2 ^ 53"
      by (simp add: exact_comparison_def)
    with PInt assms(2) False show ?thesis
      by (simp add: m cell_lt_def column_min_def num_of_def float64_of_int_small)
  next
    case (PFloat r)
    with assms(2) False show ?thesis
      by (simp add: m cell_lt_def column_min_def num_of_def)
  qed (use assms(2) in \<open>simp_all add: num_of_def\<close>)
qed

lemma cell_gt_exact:
  assumes "numeric_column xs" and "num_of v = Some q" and "exact_comparison xs v"
  shows "\<exists>m. series_max xs = Inr m \<and> cell_gt m v = Inr (column_max xs > q)"
proof (cases "is_int64 xs")
  case True
  with assms(1) have m: "series_max xs = Inr (Int64 (Max (set (ints xs))))"
    by (simp add: series_max_int64 numeric_column_def)
  have mem: "Max (set (ints xs)) \<in> set (ints xs)"
    using is_int64_ints [OF True] by (intro Max_in) auto
  show ?thesis
  proof (cases v)
    case (PInt k)
    with assms(2) True show ?thesis
      by (auto simp: m cell_gt_def column_max_def num_of_def)
  next
    case (PFloat r)
    with assms(3) True mem have "\<bar>Max (set (ints xs))\<bar> \<le> 2 ^ 53"
      by (auto simp: exact_comparison_def list_all_iff)
    with PFloat assms(2) True show ?thesis
      by (simp add: m cell_gt_def column_max_def num_of_def float64_of_int_small)
  qed (use assms(2) in \<open>simp_all add: num_of_def\<close>)
next
  case False
  with assms(1) have m: "series_max xs = Inr (Num (Max (set (floats xs))))"
    by (simp add: series_max_float64 numeric_column_def)
  show ?thesis
  proof (cases v)
    case (PInt k)
    with assms(3) False have "\<bar>k\<bar> \<le> 2 ^ 53"
      by (simp add: exact_comparison_def)
    with PInt assms(2) False show ?thesis
      by (simp add: m cell_gt_def column_max_def num_of_def float64_of_int_small)
  next
    case (PFloat r)
    with assms(2) False show ?thesis
      by (simp add: m cell_gt_def column_max_def num_of_def)
  qed (use assms(2) in \<open>simp_all add: num_of_def\<close>)
qed

text \<open>
  C8, as amended. For a single \<^verbatim>\<open>min_value\<close> constraint on a numeric column (one label, no
  strings, at least one number) with a numeric value that numpy compares exactly with the
  column (an int64 column with an int, a float64 column with a float, or a mixed pair
  whose integer operands are at most \<open>2 ^ 53\<close> in magnitude), \<^verbatim>\<open>validate_constraints\<close> is
  true when the column's minimum equals the value and false when it is strictly less;
  for a single \<^verbatim>\<open>max_value\<close> constraint it is true when the column's maximum equals the
  value and false when it is strictly greater.
\<close>

theorem bounds_are_non_strict:
  assumes "getitem df label = Inr (Series xs)" and "numeric_column xs"
      and "num_of v = Some q" and "exact_comparison xs v"
  shows "(column_min xs = q \<longrightarrow>
            validate_constraints self df [bound_constraint ''min_value'' label v])
       \<and> (column_min xs < q \<longrightarrow>
            \<not> validate_constraints self df [bound_constraint ''min_value'' label v])
       \<and> (column_max xs = q \<longrightarrow>
            validate_constraints self df [bound_constraint ''max_value'' label v])
       \<and> (column_max xs > q \<longrightarrow>
            \<not> validate_constraints self df [bound_constraint ''max_value'' label v])"
proof -
  from cell_lt_exact [OF assms(2-4)] obtain m
    where m: "series_min xs = Inr m" "cell_lt m v = Inr (column_min xs < q)" by blast
  from cell_gt_exact [OF assms(2-4)] obtain m'
    where m': "series_max xs = Inr m'" "cell_gt m' v = Inr (column_max xs > q)" by blast
  from min_value_check [OF assms(1) m, of self] max_value_check [OF assms(1) m', of self]
  show ?thesis by auto
qed

lemma ages_column: "getitem ages ''age'' = Inr (Series [Int64 18, Int64 25, Int64 30])"
  by (simp add: getitem_def ages_def)

lemma ages_numbers:
  "numeric_column [Int64 18, Int64 25, Int64 30]"
  "is_int64 [Int64 18, Int64 25, Int64 30]"
  "column_min [Int64 18, Int64 25, Int64 30] = 18"
  "column_max [Int64 18, Int64 25, Int64 30] = 30"
  by (simp_all add: numeric_column_def is_int64_def column_min_def column_max_def strs_def
      ints_def floats_def)

theorem bounds_are_non_strict_witness:
  "getitem ages ''age'' = Inr (Series [Int64 18, Int64 25, Int64 30])
   \<and> numeric_column [Int64 18, Int64 25, Int64 30]
   \<and> num_of (PInt 18) = Some 18
   \<and> exact_comparison [Int64 18, Int64 25, Int64 30] (PInt 18)
   \<and> column_min [Int64 18, Int64 25, Int64 30] = 18
   \<and> column_max [Int64 18, Int64 25, Int64 30] = 30
   \<and> validate_constraints (ValidationEngine_init Map.empty) ages [bound_constraint ''min_value'' ''age'' (PInt 18)]
   \<and> \<not> validate_constraints (ValidationEngine_init Map.empty) ages [bound_constraint ''min_value'' ''age'' (PInt 20)]
   \<and> validate_constraints (ValidationEngine_init Map.empty) ages [bound_constraint ''max_value'' ''age'' (PFloat 30)]
   \<and> \<not> validate_constraints (ValidationEngine_init Map.empty) ages [bound_constraint ''max_value'' ''age'' (PFloat (59 / 2))]"
proof -
  have n: "num_of (PInt 18) = Some 18" "num_of (PInt 20) = Some 20"
    "num_of (PFloat 30) = Some 30" "num_of (PFloat (59 / 2)) = Some (59 / 2)"
    by (simp_all add: num_of_def)
  have e: "exact_comparison [Int64 18, Int64 25, Int64 30] (PInt 18)"
    "exact_comparison [Int64 18, Int64 25, Int64 30] (PInt 20)"
    "exact_comparison [Int64 18, Int64 25, Int64 30] (PFloat 30)"
    "exact_comparison [Int64 18, Int64 25, Int64 30] (PFloat (59 / 2))"
    by (simp_all add: exact_comparison_def ages_numbers(2) ints_def)
  note b = bounds_are_non_strict [OF ages_column ages_numbers(1),
      where self = "ValidationEngine_init Map.empty"]
  from b [OF n(1) e(1)] b [OF n(2) e(2)] b [OF n(3) e(3)] b [OF n(4) e(4)]
    ages_column ages_numbers n(1) e(1)
  show ?thesis
    by simp
qed

lemma big_columns:
  "getitem big_floats ''x'' = Inr (Series [Num 9007199254740992])"
  "getitem big_ints ''x'' = Inr (Series [Int64 9007199254740993])"
  by (simp_all add: getitem_def big_floats_def big_ints_def)

text \<open>
  C8 as stated fails. A float64 column whose minimum is \<open>2 ^ 53\<close> passes
  \<^verbatim>\<open>min_value = 2 ^ 53 + 1\<close>, and an int64 column whose maximum is \<open>2 ^ 53 + 1\<close> passes
  \<^verbatim>\<open>max_value = 2 ^ 53\<close> given as a float: numpy converts the integer operand to binary64,
  where \<open>2 ^ 53 + 1\<close> is \<open>2 ^ 53\<close>, and finds the two equal.
\<close>

theorem rounded_bound_passes:
  "getitem big_floats ''x'' = Inr (Series [Num 9007199254740992])
   \<and> column_min [Num 9007199254740992] < 9007199254740993
   \<and> validate_constraints (ValidationEngine_init Map.empty) big_floats
        [bound_constraint ''min_value'' ''x'' (PInt 9007199254740993)]
   \<and> getitem big_ints ''x'' = Inr (Series [Int64 9007199254740993])
   \<and> column_max [Int64 9007199254740993] > 9007199254740992
   \<and> validate_constraints (ValidationEngine_init Map.empty) big_ints
        [bound_constraint ''max_value'' ''x'' (PFloat 9007199254740992)]"
proof -
  have 1: "series_min [Num 9007199254740992] = Inr (Num 9007199254740992)"
    by (simp add: series_min_def strs_def is_int64_def ints_def floats_def)
  have 2: "cell_lt (Num 9007199254740992) (PInt 9007199254740993) = Inr False"
    by (simp add: cell_lt_def float64_of_int_big)
  have 3: "series_max [Int64 9007199254740993] = Inr (Int64 9007199254740993)"
    by (simp add: series_max_def strs_def is_int64_def ints_def)
  have 4: "cell_gt (Int64 9007199254740993) (PFloat 9007199254740992) = Inr False"
    by (simp add: cell_gt_def float64_of_int_big)
  have 5: "column_min [Num 9007199254740992] < 9007199254740993"
    by (simp add: column_min_def is_int64_def ints_def floats_def)
  have 6: "column_max [Int64 9007199254740993] > 9007199254740992"
    by (simp add: column_max_def is_int64_def ints_def)
  from min_value_check [OF big_columns(1) 1 2, of "ValidationEngine_init Map.empty"]
    max_value_check [OF big_columns(2) 3 4, of "ValidationEngine_init Map.empty"]
    big_columns 5 6
  show ?thesis by simp
qed

section \<open>Monotonic failure\<close>

lemma generate_success:
  "success (fst (generate rt now self df)) =
     (validate_schema (validation_engine self) df
      \<and> sla_passed (fst (enforce_sla rt now (sla_enforcer self) df)))"
  by (simp add: generate_def new_report_def record_schema_validation_def record_data_quality_def
      record_sla_enforcement_def Let_def split: prod.splits)

lemma generate_failed_steps:
  "success (fst (generate rt now self df)) =
     (\<forall>s \<in> set (steps (fst (generate rt now self df))). status s \<noteq> ''failed'')"
  by (simp add: generate_def new_report_def record_schema_validation_def record_data_quality_def
      record_sla_enforcement_def Let_def split: prod.splits)

lemma check_min_rows_verdict:
  "check_min_rows rt rules n r = Inr r' \<Longrightarrow> sla_passed r = (violations r = []) \<Longrightarrow>
     sla_passed r' = (violations r' = [])"
  by (auto simp: check_min_rows_def Let_def split: option.splits sum.splits if_splits)

lemma check_max_rows_verdict:
  "check_max_rows rt rules n r = Inr r' \<Longrightarrow> sla_passed r = (violations r = []) \<Longrightarrow>
     sla_passed r' = (violations r' = [])"
  by (auto simp: check_max_rows_def split: option.splits sum.splits if_splits)

lemma check_completeness_verdict:
  "check_completeness rt rules df n r = Inr r' \<Longrightarrow> sla_passed r = (violations r = []) \<Longrightarrow>
     sla_passed r' = (violations r' = [])"
  by (auto simp: check_completeness_def Let_def split: option.splits sum.splits if_splits)

lemma enforce_sla_verdict:
  "sla_passed (fst (enforce_sla rt now self df)) = (violations (fst (enforce_sla rt now self df)) = [])"
proof (cases "enforce_sla_body rt (sla_rules self) df (new_results now)")
  case (Inl x)
  then show ?thesis
    by (cases x) (simp add: fst_enforce_sla on_exception_def)
next
  case (Inr r)
  then obtain r1 r2 where 1: "check_min_rows rt (sla_rules self) (nrows df) (new_results now) = Inr r1"
    and 2: "check_max_rows rt (sla_rules self) (nrows df) r1 = Inr r2"
    and 3: "check_completeness rt (sla_rules self) df (nrows df) r2 = Inr r"
    by (auto simp: enforce_sla_body_def Let_def split: sum.splits)
  have "sla_passed (new_results now) = (violations (new_results now) = [])"
    by (simp add: new_results_def)
  from check_completeness_verdict [OF 3 check_max_rows_verdict [OF 2 check_min_rows_verdict [OF 1 this]]]
  show ?thesis
    by (simp add: fst_enforce_sla Inr)
qed

lemma enforce_sla_keeps_failure:
  assumes "r1 = state_of (check_min_rows rt (sla_rules self) (nrows df) (new_results now))"
      and "r2 = state_of (check_max_rows rt (sla_rules self) (nrows df) r1)"
      and "r3 = state_of (check_completeness rt (sla_rules self) df (nrows df) r2)"
  shows "(\<not> sla_passed r1 \<longrightarrow> \<not> sla_passed (fst (enforce_sla rt now self df)))
       \<and> (\<not> sla_passed r2 \<longrightarrow> \<not> sla_passed (fst (enforce_sla rt now self df)))
       \<and> (\<not> sla_passed r3 \<longrightarrow> \<not> sla_passed (fst (enforce_sla rt now self df)))"
proof -
  have 12: "\<not> sla_passed r1 \<Longrightarrow> \<not> sla_passed r2"
    unfolding assms(2) by (rule check_max_rows_mono)
  have 23: "\<not> sla_passed r2 \<Longrightarrow> \<not> sla_passed r3"
    unfolding assms(3) by (rule check_completeness_mono)
  have h: "\<not> sla_passed (on_exception rt e r)" for e r
    by (simp add: on_exception_def)
  from enforce_sla_cases [OF assms] 12 23 h show ?thesis
    by metis
qed

text \<open>
  C3. In a run of \<^verbatim>\<open>generate\<close> the report starts with \<^verbatim>\<open>success\<close> true and none of the
  three steps sets a false \<^verbatim>\<open>success\<close> back to true; the report that \<^verbatim>\<open>generate\<close>
  returns has \<^verbatim>\<open>success\<close> true exactly when the schema check and the SLA both passed,
  which is exactly when no step of the report has the status \<^verbatim>\<open>failed\<close>. In a call of
  \<^verbatim>\<open>enforce_sla\<close> the results start with \<^verbatim>\<open>sla_passed\<close> true, none of the three blocks
  sets a false \<^verbatim>\<open>sla_passed\<close> back to true, whether it ends normally or raises, and the
  handler leaves it false; when \<^verbatim>\<open>sla_passed\<close> is false after the first, the second or
  the third block, it is false in the result that \<^verbatim>\<open>enforce_sla\<close> returns; and that
  result has \<^verbatim>\<open>sla_passed\<close> true exactly when it has no violation.
\<close>

theorem monotonic_failure:
  "success (new_report df)
   \<and> (\<not> success r \<longrightarrow> \<not> success (record_schema_validation schema_valid r))
   \<and> (\<not> success r \<longrightarrow> \<not> success (record_data_quality quality r))
   \<and> (\<not> success r \<longrightarrow> \<not> success (record_sla_enforcement sla_res r))
   \<and> success (fst (generate rt now self df)) =
        (validate_schema (validation_engine self) df
         \<and> sla_passed (fst (enforce_sla rt now (sla_enforcer self) df)))
   \<and> success (fst (generate rt now self df)) =
        (\<forall>s \<in> set (steps (fst (generate rt now self df))). status s \<noteq> ''failed'')
   \<and> sla_passed (new_results now)
   \<and> (\<not> sla_passed res \<longrightarrow> \<not> sla_passed (state_of (check_min_rows rt rules n res)))
   \<and> (\<not> sla_passed res \<longrightarrow> \<not> sla_passed (state_of (check_max_rows rt rules n res)))
   \<and> (\<not> sla_passed res \<longrightarrow> \<not> sla_passed (state_of (check_completeness rt rules df n res)))
   \<and> \<not> sla_passed (on_exception rt e res)
   \<and> (\<not> sla_passed (state_of (check_min_rows rt (sla_rules enf) (nrows df) (new_results now)))
        \<longrightarrow> \<not> sla_passed (fst (enforce_sla rt now enf df)))
   \<and> (\<not> sla_passed (state_of (check_max_rows rt (sla_rules enf) (nrows df)
          (state_of (check_min_rows rt (sla_rules enf) (nrows df) (new_results now)))))
        \<longrightarrow> \<not> sla_passed (fst (enforce_sla rt now enf df)))
   \<and> (\<not> sla_passed (state_of (check_completeness rt (sla_rules enf) df (nrows df)
          (state_of (check_max_rows rt (sla_rules enf) (nrows df)
            (state_of (check_min_rows rt (sla_rules enf) (nrows df) (new_results now)))))))
        \<longrightarrow> \<not> sla_passed (fst (enforce_sla rt now enf df)))
   \<and> sla_passed (fst (enforce_sla rt now enf df)) = (violations (fst (enforce_sla rt now enf df)) = [])"
proof -
  have steps: "success (new_report df)
     \<and> (\<not> success r \<longrightarrow> \<not> success (record_schema_validation schema_valid r))
     \<and> (\<not> success r \<longrightarrow> \<not> success (record_data_quality quality r))
     \<and> (\<not> success r \<longrightarrow> \<not> success (record_sla_enforcement sla_res r))"
    by (simp add: new_report_def record_schema_validation_def record_data_quality_def
        record_sla_enforcement_def Let_def)
  have blocks: "sla_passed (new_results now)
     \<and> (\<not> sla_passed res \<longrightarrow> \<not> sla_passed (state_of (check_min_rows rt rules n res)))
     \<and> (\<not> sla_passed res \<longrightarrow> \<not> sla_passed (state_of (check_max_rows rt rules n res)))
     \<and> (\<not> sla_passed res \<longrightarrow> \<not> sla_passed (state_of (check_completeness rt rules df n res)))
     \<and> \<not> sla_passed (on_exception rt e res)"
    by (simp add: new_results_def on_exception_def check_min_rows_mono check_max_rows_mono
        check_completeness_mono)
  note run = enforce_sla_keeps_failure [OF refl refl refl, of rt enf df now]
  from steps blocks run generate_success [of rt now self df]
    generate_failed_steps [of rt now self df] enforce_sla_verdict [of rt now enf df]
  show ?thesis by blast
qed

lemma id_name_sla_fails:
  "\<not> sla_passed (fst (enforce_sla test_runtime ''t''
       (sla_enforcer (PipelineGenerator_init id_name_contract)) two_rows))"
  by (simp add: enforce_sla_def enforce_sla_body_def check_min_rows_def check_max_rows_def
      check_completeness_def PipelineGenerator_init_def SLAEnforcer_init_def get_sla_def
      id_name_contract_def two_rows_def new_results_def num_lt_def Let_def)

theorem monotonic_failure_witness:
  "\<not> success failed_report
   \<and> \<not> success (record_schema_validation True failed_report)
   \<and> \<not> success (record_data_quality
         (validate_data_quality test_runtime (ValidationEngine_init Map.empty) two_rows) failed_report)
   \<and> \<not> success (record_sla_enforcement (new_results ''t'') failed_report)
   \<and> \<not> sla_passed failed_results
   \<and> \<not> sla_passed (state_of (check_min_rows test_runtime [''min_rows'' \<mapsto> PInt 1] 2 failed_results))
   \<and> \<not> sla_passed (state_of (check_max_rows test_runtime [''min_rows'' \<mapsto> PInt 1] 2 failed_results))
   \<and> \<not> sla_passed (state_of (check_completeness test_runtime [''min_rows'' \<mapsto> PInt 1] two_rows 2
         failed_results))
   \<and> validate_schema (validation_engine (PipelineGenerator_init id_name_contract)) two_rows
   \<and> \<not> sla_passed (fst (enforce_sla test_runtime ''t''
         (sla_enforcer (PipelineGenerator_init id_name_contract)) two_rows))
   \<and> \<not> success (fst (generate test_runtime ''t'' (PipelineGenerator_init id_name_contract) two_rows))
   \<and> violations (fst (enforce_sla test_runtime ''t''
         (sla_enforcer (PipelineGenerator_init id_name_contract)) two_rows)) \<noteq> []"
proof -
  note m = monotonic_failure [where r = failed_report and res = failed_results
      and df = two_rows and schema_valid = True and rt = test_runtime and n = 2
      and sla_res = "new_results ''t''" and now = "''t''"
      and quality = "validate_data_quality test_runtime (ValidationEngine_init Map.empty) two_rows"
      and rules = "[''min_rows'' \<mapsto> PInt 1]"
      and self = "PipelineGenerator_init id_name_contract"
      and enf = "sla_enforcer (PipelineGenerator_init id_name_contract)"]
  from m failed_report_failed failed_results_failed id_name_present id_name_sla_fails
  show ?thesis by blast
qed

end
